theory Spec2Isabelle
  imports Complex_Main "HOL-Library.Char_ord" "HOL-Library.List_Lexorder"
    "HOL-Library.Log_Nat" "HOL-Library.Multiset"
begin

section \<open>JavaScript numbers\<close>

text \<open>
  A JavaScript number is an IEEE 754 double. A finite double is modelled by the rational
  it denotes, and an operation by the exact result rounded to the nearest double, ties
  to the even significand: 53 significant bits, least exponent \<open>-1074\<close>. The overflow to
  \<open>Infinity\<close> above \<open>1.8e308\<close> is not modelled; a stored score has at most three integer
  digits, so no sum of scores comes near it.
\<close>

definition round_half_even :: "rat \<Rightarrow> int" where
  "round_half_even x =
     (let f = \<lfloor>x\<rfloor>; d = x - of_int f
      in if d < 1 / 2 then f
         else if 1 / 2 < d then f + 1
         else if even f then f else f + 1)"

definition pow2 :: "int \<Rightarrow> rat" where
  "pow2 e = (if 0 \<le> e then 2 ^ nat e else 1 / 2 ^ nat (- e))"

text \<open>For positive \<open>a\<close>, \<open>ilog2 a\<close> is the integer \<open>k\<close> with \<open>pow2 k \<le> a < pow2 (k + 1)\<close>.\<close>

definition ilog2 :: "rat \<Rightarrow> int" where
  "ilog2 a =
     (let d = bitlen (fst (quotient_of a)) - bitlen (snd (quotient_of a))
      in if pow2 d \<le> a then d else d - 1)"

definition to_double :: "rat \<Rightarrow> rat" where
  "to_double x =
     (if x = 0 then 0
      else
        let e = max (ilog2 \<bar>x\<bar> - 52) (- 1074);
            m = round_half_even (\<bar>x\<bar> / pow2 e)
        in sgn x * of_int m * pow2 e)"

text \<open>
  \<open>parseFloat\<close> of the decimal text of a \<open>DECIMAL\<close> column, \<open>a + b\<close> and \<open>a / b\<close> on
  numbers.
\<close>

definition parseFloat :: "rat \<Rightarrow> rat" where
  "parseFloat decimal = to_double decimal"

definition js_add :: "rat \<Rightarrow> rat \<Rightarrow> rat" where
  "js_add a b = to_double (a + b)"

definition js_div :: "rat \<Rightarrow> rat \<Rightarrow> rat" where
  "js_div a b = to_double (a / b)"

text \<open>
  An optional resolver argument is omitted (\<open>undefined\<close>), explicitly \<open>null\<close>, or given.
\<close>

datatype 'a js_arg = Omitted | Null | Given 'a

section \<open>Pagination helper (src/utils/pagination.ts)\<close>

text \<open>
  GraphQL hands \<open>limit\<close> and \<open>offset\<close> to the resolvers as optional \<open>Int\<close>
  arguments: a field that is absent (or \<open>null\<close>) is \<open>None\<close>, a field that is present is
  a signed integer.
\<close>

record PaginationArgs =
  limit :: "int option"
  offset :: "int option"

record 'a PaginatedResult =
  items :: "'a list"
  totalCount :: int
  hasMore :: bool
  page_limit :: int
  page_offset :: int

text \<open>
  The JavaScript expression \<open>v || d\<close> on an optional number: \<open>undefined\<close>, \<open>null\<close> and
  \<open>0\<close> are falsy and yield the default, every other number (negative ones too) is
  truthy and is kept.
\<close>

definition js_or :: "int option \<Rightarrow> int \<Rightarrow> int" where
  "js_or v d = (case v of None \<Rightarrow> d | Some n \<Rightarrow> (if n = 0 then d else n))"

text \<open>
  \<^verbatim>\<open>const limit = Math.min(args.limit || 10, 100);
  const offset = args.offset || 0;
  return { limit, offset };\<close>
\<close>

definition getPaginationParams :: "PaginationArgs \<Rightarrow> int \<times> int" where
  "getPaginationParams args =
     (let l = min (js_or (limit args) 10) 100;
          off = js_or (offset args) 0
      in (l, off))"

text \<open>
  \<^verbatim>\<open>paginate(items, totalCount, limit = 10, offset = 0)\<close>: a parameter default applies
  when the argument is \<open>undefined\<close>, modelled as \<open>None\<close>.
\<close>

definition paginate :: "'a list \<Rightarrow> int \<Rightarrow> int option \<Rightarrow> int option \<Rightarrow> 'a PaginatedResult" where
  "paginate its tc lim_arg off_arg =
     (let l = (case lim_arg of None \<Rightarrow> 10 | Some n \<Rightarrow> n);
          ofs = (case off_arg of None \<Rightarrow> 0 | Some n \<Rightarrow> n)
      in \<lparr>items = its,
          totalCount = tc,
          hasMore = (ofs + int (length its) < tc),
          page_limit = l,
          page_offset = ofs\<rparr>)"

section \<open>Errors and the authorization check (middleware/auth.ts)\<close>

datatype ErrorCode = UNAUTHENTICATED | FORBIDDEN | NOT_FOUND | BAD_USER_INPUT

text \<open>
  A resolver either returns or throws. What it throws itself is a \<open>GraphQLError\<close> with
  a message and an extension code; what the ORM or the database throws (a failed model
  validation, a violated constraint, a rejected statement) is not a \<open>GraphQLError\<close> and
  carries none of the four codes.
\<close>

datatype error =
    GraphQLError string ErrorCode
  | StorageError

fun error_code :: "error \<Rightarrow> ErrorCode option" where
  "error_code (GraphQLError m c) = Some c"
| "error_code StorageError = None"

text \<open>
  A stored key is a UUID, written in its canonical text. An \<open>ID\<close> argument is any string;
  the database converts it when it is compared with a \<open>uuid\<close> column, and rejects the
  statement when the string is not UUID syntax. That conversion is an argument
  \<open>uuid_in\<close> of the model: \<open>None\<close> for a string that is not UUID syntax, otherwise the
  canonical text.
\<close>

type_synonym uuid = string

record AuthUser =
  auth_id :: uuid
  auth_email :: string
  auth_role :: string

record AuthContext =
  user :: "AuthUser option"

definition requireAuth :: "AuthContext \<Rightarrow> error + unit" where
  "requireAuth ctx =
     (case user ctx of
        None \<Rightarrow> Inl (GraphQLError ''Authentication required'' UNAUTHENTICATED)
      | Some u \<Rightarrow> Inr ())"

definition requireAdmin :: "AuthContext \<Rightarrow> error + unit" where
  "requireAdmin ctx =
     (case requireAuth ctx of
        Inl e \<Rightarrow> Inl e
      | Inr _ \<Rightarrow>
          (case user ctx of
             None \<Rightarrow> Inl (GraphQLError ''Authentication required'' UNAUTHENTICATED)
           | Some u \<Rightarrow>
               (if auth_role u \<noteq> ''admin''
                then Inl (GraphQLError ''Admin access required'' FORBIDDEN)
                else Inr ())))"

section \<open>Entities and the store (models/*.ts)\<close>

text \<open>
  One record per table, with the columns of the Sequelize models; primary and foreign
  keys are UUIDs. The \<open>createdAt\<close>/\<open>updatedAt\<close> columns are left out: no resolver
  reads them. A \<open>DECIMAL(5,2)\<close> score is an exact rational.
\<close>

record User =
  user_id :: uuid
  user_email :: string
  user_password :: string
  user_role :: string

record Institute =
  inst_id :: uuid
  inst_name :: string
  inst_location :: string

record Student =
  stu_id :: uuid
  stu_name :: string
  stu_email :: string
  stu_instituteId :: uuid
  stu_userId :: uuid

record Course =
  crs_id :: uuid
  crs_title :: string
  crs_code :: string
  crs_credits :: int

record Result =
  res_id :: uuid
  res_studentId :: uuid
  res_courseId :: uuid
  res_score :: rat
  res_grade :: string
  res_year :: int

text \<open>The statements a resolver sends to the database, in the order it sends them.\<close>

datatype Statement =
    SelectUserById uuid
  | SelectUserByEmail string
  | SelectInstituteById uuid
  | SelectCourseById uuid
  | SelectCourseByCode string
  | InsertStudent uuid
  | InsertCourse uuid
  | UpdateCourse uuid
  | SelectStudentWithInstituteById uuid
  | SelectInstitutesWithResults "uuid option"
  | SelectEnrollmentByCourse int "int option"
  | SelectScoresByStudent "int option"

text \<open>
  The store is the five tables plus the trace of statements issued so far. A table is
  the list of its rows in the order an unordered scan returns them.
\<close>

record Store =
  users :: "User list"
  institutes :: "Institute list"
  students :: "Student list"
  courses :: "Course list"
  results :: "Result list"
  calls :: "Statement list"

definition issue :: "Statement \<Rightarrow> Store \<Rightarrow> Store" where
  "issue q s = s\<lparr>calls := calls s @ [q]\<rparr>"

subsection \<open>Lookups\<close>

definition User_findByPk ::
  "(string \<Rightarrow> uuid option) \<Rightarrow> string \<Rightarrow> Store \<Rightarrow> (error + User option) \<times> Store" where
  "User_findByPk uuid_in pk s =
     (case uuid_in pk of
        None \<Rightarrow> (Inl StorageError, issue (SelectUserById pk) s)
      | Some k \<Rightarrow> (Inr (find (\<lambda>u. user_id u = k) (users s)), issue (SelectUserById pk) s))"

definition User_findOne_email :: "string \<Rightarrow> Store \<Rightarrow> User option \<times> Store" where
  "User_findOne_email e s =
     (find (\<lambda>u. user_email u = e) (users s), issue (SelectUserByEmail e) s)"

definition Institute_findByPk ::
  "(string \<Rightarrow> uuid option) \<Rightarrow> string \<Rightarrow> Store \<Rightarrow> (error + Institute option) \<times> Store" where
  "Institute_findByPk uuid_in pk s =
     (case uuid_in pk of
        None \<Rightarrow> (Inl StorageError, issue (SelectInstituteById pk) s)
      | Some k \<Rightarrow>
          (Inr (find (\<lambda>i. inst_id i = k) (institutes s)), issue (SelectInstituteById pk) s))"

text \<open>
  The course resolvers are modelled for a course id that is already the canonical text
  of a UUID, which the lookup compares with the stored keys as it is.
\<close>

definition Course_findByPk :: "uuid \<Rightarrow> Store \<Rightarrow> Course option \<times> Store" where
  "Course_findByPk pk s =
     (find (\<lambda>c. crs_id c = pk) (courses s), issue (SelectCourseById pk) s)"

definition Course_findOne_code :: "string \<Rightarrow> Store \<Rightarrow> Course option \<times> Store" where
  "Course_findOne_code cd s =
     (find (\<lambda>c. crs_code c = cd) (courses s), issue (SelectCourseByCode cd) s)"

subsection \<open>Writes\<close>

text \<open>
  \<open>Model.create\<close> first runs the validators declared in the model and then sends the
  \<open>INSERT\<close>, which the database rejects when a column is too long or a primary-key,
  unique or foreign-key constraint is violated. The new primary key is the
  \<open>UUIDV4\<close> default, taken here as an argument; \<open>isEmail\<close> is the validator library's
  predicate, also an argument.
\<close>

record CreateCourseInput =
  cc_title :: string
  cc_code :: string
  cc_credits :: int

record UpdateCourseInput =
  uc_title :: "string option"
  uc_code :: "string option"
  uc_credits :: "int option"

record CreateStudentInput =
  cs_name :: string
  cs_email :: string
  cs_instituteId :: string
  cs_userId :: string

definition credits_valid :: "int \<Rightarrow> bool" where
  "credits_valid n = (1 \<le> n \<and> n \<le> 6)"

definition Course_create :: "CreateCourseInput \<Rightarrow> uuid \<Rightarrow> Store \<Rightarrow> (error + Course) \<times> Store" where
  "Course_create inp new_id s =
     (if \<not> credits_valid (cc_credits inp) then (Inl StorageError, s)
      else
        let s1 = issue (InsertCourse new_id) s;
            row = \<lparr>crs_id = new_id, crs_title = cc_title inp,
                   crs_code = cc_code inp, crs_credits = cc_credits inp\<rparr>
        in if length (cc_title inp) > 255 \<or> length (cc_code inp) > 50
              \<or> (\<exists>c \<in> set (courses s). crs_code c = cc_code inp)
              \<or> (\<exists>c \<in> set (courses s). crs_id c = new_id)
           then (Inl StorageError, s1)
           else (Inr row, s1\<lparr>courses := courses s1 @ [row]\<rparr>))"

text \<open>
  \<open>instance.update(input)\<close> sets the supplied fields, validates and writes only the
  fields whose value changed, and sends no statement when none did. An optional input
  field that was not supplied is \<open>None\<close>.
\<close>

definition apply_input :: "Course \<Rightarrow> UpdateCourseInput \<Rightarrow> Course" where
  "apply_input c inp =
     c\<lparr>crs_title := (case uc_title inp of None \<Rightarrow> crs_title c | Some t \<Rightarrow> t),
       crs_code := (case uc_code inp of None \<Rightarrow> crs_code c | Some cd \<Rightarrow> cd),
       crs_credits := (case uc_credits inp of None \<Rightarrow> crs_credits c | Some n \<Rightarrow> n)\<rparr>"

definition Course_update :: "Course \<Rightarrow> UpdateCourseInput \<Rightarrow> Store \<Rightarrow> (error + Course) \<times> Store" where
  "Course_update c inp s =
     (let c' = apply_input c inp in
      if c' = c then (Inr c, s)
      else if crs_credits c' \<noteq> crs_credits c \<and> \<not> credits_valid (crs_credits c')
      then (Inl StorageError, s)
      else
        let s1 = issue (UpdateCourse (crs_id c)) s
        in if (crs_title c' \<noteq> crs_title c \<and> length (crs_title c') > 255)
              \<or> (crs_code c' \<noteq> crs_code c
                  \<and> (length (crs_code c') > 50
                       \<or> (\<exists>d \<in> set (courses s). crs_code d = crs_code c')))
           then (Inl StorageError, s1)
           else (Inr c', s1\<lparr>courses := map (\<lambda>d. if crs_id d = crs_id c then c' else d) (courses s1)\<rparr>))"

definition Student_create ::
  "(string \<Rightarrow> uuid option) \<Rightarrow> (string \<Rightarrow> bool) \<Rightarrow> CreateStudentInput \<Rightarrow> uuid \<Rightarrow> Store
     \<Rightarrow> (error + Student) \<times> Store" where
  "Student_create uuid_in isEmail inp new_id s =
     (if \<not> isEmail (cs_email inp) then (Inl StorageError, s)
      else
        let s1 = issue (InsertStudent new_id) s
        in case (uuid_in (cs_instituteId inp), uuid_in (cs_userId inp)) of
             (Some ki, Some ku) \<Rightarrow>
               (let row = \<lparr>stu_id = new_id, stu_name = cs_name inp, stu_email = cs_email inp,
                              stu_instituteId = ki, stu_userId = ku\<rparr>
                in if length (cs_name inp) > 255 \<or> length (cs_email inp) > 255
                      \<or> \<not> (\<exists>i \<in> set (institutes s). inst_id i = ki)
                      \<or> \<not> (\<exists>u \<in> set (users s). user_id u = ku)
                      \<or> (\<exists>t \<in> set (students s). stu_id t = new_id)
                   then (Inl StorageError, s1)
                   else (Inr row, s1\<lparr>students := students s1 @ [row]\<rparr>))
           | _ \<Rightarrow> (Inl StorageError, s1))"

section \<open>Course resolvers (graphql/resolvers/course.ts)\<close>

definition createCourse ::
  "AuthContext \<Rightarrow> CreateCourseInput \<Rightarrow> uuid \<Rightarrow> Store \<Rightarrow> (error + Course) \<times> Store" where
  "createCourse ctx inp new_id s =
     (case requireAuth ctx of
        Inl e \<Rightarrow> (Inl e, s)
      | Inr _ \<Rightarrow>
          (case Course_findOne_code (cc_code inp) s of
             (Some existingCourse, s1) \<Rightarrow>
               (Inl (GraphQLError ''Course with this code already exists'' BAD_USER_INPUT), s1)
           | (None, s1) \<Rightarrow> Course_create inp new_id s1))"

text \<open>
  \<open>input.code && input.code !== course.code\<close>: the code to look up, when the guard
  holds. An absent code and the empty string are falsy.
\<close>

definition code_to_check :: "UpdateCourseInput \<Rightarrow> Course \<Rightarrow> string option" where
  "code_to_check inp c =
     (case uc_code inp of
        None \<Rightarrow> None
      | Some cd \<Rightarrow> (if cd \<noteq> [] \<and> cd \<noteq> crs_code c then Some cd else None))"

definition updateCourse ::
  "AuthContext \<Rightarrow> uuid \<Rightarrow> UpdateCourseInput \<Rightarrow> Store \<Rightarrow> (error + Course) \<times> Store" where
  "updateCourse ctx pk inp s =
     (case requireAuth ctx of
        Inl e \<Rightarrow> (Inl e, s)
      | Inr _ \<Rightarrow>
          (case Course_findByPk pk s of
             (None, s1) \<Rightarrow> (Inl (GraphQLError ''Course not found'' NOT_FOUND), s1)
           | (Some course, s1) \<Rightarrow>
               (case code_to_check inp course of
                  Some cd \<Rightarrow>
                    (case Course_findOne_code cd s1 of
                       (Some existingCourse, s2) \<Rightarrow>
                         (Inl (GraphQLError ''Course with this code already exists'' BAD_USER_INPUT), s2)
                     | (None, s2) \<Rightarrow> Course_update course inp s2)
                | None \<Rightarrow> Course_update course inp s1)))"

section \<open>Student resolvers (graphql/resolvers/student.ts)\<close>

definition createStudent ::
  "(string \<Rightarrow> uuid option) \<Rightarrow> (string \<Rightarrow> bool) \<Rightarrow> AuthContext \<Rightarrow> CreateStudentInput \<Rightarrow> uuid
     \<Rightarrow> Store \<Rightarrow> (error + Student) \<times> Store" where
  "createStudent uuid_in isEmail ctx inp new_id s =
     (case requireAuth ctx of
        Inl e \<Rightarrow> (Inl e, s)
      | Inr _ \<Rightarrow>
          (case Institute_findByPk uuid_in (cs_instituteId inp) s of
             (Inl e, s1) \<Rightarrow> (Inl e, s1)
           | (Inr None, s1) \<Rightarrow> (Inl (GraphQLError ''Institute not found'' BAD_USER_INPUT), s1)
           | (Inr (Some institute), s1) \<Rightarrow>
               (case User_findByPk uuid_in (cs_userId inp) s1 of
                  (Inl e, s2) \<Rightarrow> (Inl e, s2)
                | (Inr None, s2) \<Rightarrow> (Inl (GraphQLError ''User not found'' BAD_USER_INPUT), s2)
                | (Inr (Some u), s2) \<Rightarrow> Student_create uuid_in isEmail inp new_id s2)))"

section \<open>Sign-in (graphql/resolvers/auth.ts)\<close>

text \<open>
  \<open>bcrypt.compare\<close> and \<open>jwt.sign\<close> belong to external libraries and are arguments of
  the model.
\<close>

record SignInInput =
  si_email :: string
  si_password :: string

record AuthPayload =
  token :: string
  payload_user :: User

definition signIn ::
  "(string \<Rightarrow> string \<Rightarrow> bool) \<Rightarrow> (AuthUser \<Rightarrow> string) \<Rightarrow> SignInInput \<Rightarrow> Store
     \<Rightarrow> (error + AuthPayload) \<times> Store" where
  "signIn bcrypt_compare jwt_sign inp s =
     (case User_findOne_email (si_email inp) s of
        (None, s1) \<Rightarrow> (Inl (GraphQLError ''Invalid credentials'' UNAUTHENTICATED), s1)
      | (Some u, s1) \<Rightarrow>
          (if \<not> bcrypt_compare (si_password inp) (user_password u)
           then (Inl (GraphQLError ''Invalid credentials'' UNAUTHENTICATED), s1)
           else (Inr \<lparr>token = jwt_sign \<lparr>auth_id = user_id u, auth_email = user_email u,
                                        auth_role = user_role u\<rparr>,
                      payload_user = u\<rparr>, s1)))"

section \<open>Analytics resolvers (graphql/resolvers/analytics.ts)\<close>

subsection \<open>resultsPerInstitute\<close>

text \<open>
  What \<open>Institute.findAll\<close> with the nested \<open>include\<close> hands back after \<open>toJSON()\<close>:
  each institute with its students, each student with its results, each result with
  its course. The nested arrays are optional fields of the JSON object, because the
  resolver tests them before use. A score arrives as the decimal text of the column.
\<close>

record LoadedResult =
  lr_id :: uuid
  lr_score :: rat
  lr_grade :: string
  lr_year :: int
  lr_course :: "Course option"

record LoadedStudent =
  ls_id :: uuid
  ls_name :: string
  ls_email :: string
  ls_results :: "LoadedResult list option"

record LoadedInstitute =
  li_id :: uuid
  li_name :: string
  li_location :: string
  li_students :: "LoadedStudent list option"

text \<open>
  The query has no \<open>order\<close> option, so the database delivers the selected rows of each
  table in an order of its own choosing. The three orders are arguments of the model;
  \<open>delivers\<close> says that each of them only rearranges the rows it is given.
\<close>

record Delivery =
  institutes_as :: "Institute list \<Rightarrow> Institute list"
  students_as :: "Student list \<Rightarrow> Student list"
  results_as :: "Result list \<Rightarrow> Result list"

definition delivers :: "Delivery \<Rightarrow> bool" where
  "delivers d =
     ((\<forall>xs. mset (institutes_as d xs) = mset xs)
      \<and> (\<forall>xs. mset (students_as d xs) = mset xs)
      \<and> (\<forall>xs. mset (results_as d xs) = mset xs))"

definition load_result :: "Store \<Rightarrow> Result \<Rightarrow> LoadedResult" where
  "load_result s r =
     \<lparr>lr_id = res_id r, lr_score = res_score r, lr_grade = res_grade r, lr_year = res_year r,
      lr_course = find (\<lambda>c. crs_id c = res_courseId r) (courses s)\<rparr>"

definition load_student :: "Delivery \<Rightarrow> Store \<Rightarrow> Student \<Rightarrow> LoadedStudent" where
  "load_student d s st =
     \<lparr>ls_id = stu_id st, ls_name = stu_name st, ls_email = stu_email st,
      ls_results = Some (map (load_result s)
                     (results_as d (filter (\<lambda>r. res_studentId r = stu_id st) (results s))))\<rparr>"

definition load_institute :: "Delivery \<Rightarrow> Store \<Rightarrow> Institute \<Rightarrow> LoadedInstitute" where
  "load_institute d s i =
     \<lparr>li_id = inst_id i, li_name = inst_name i, li_location = inst_location i,
      li_students = Some (map (load_student d s)
                      (students_as d (filter (\<lambda>st. stu_instituteId st = inst_id i) (students s))))\<rparr>"

text \<open>
  \<open>instituteId ? { id: instituteId } : {}\<close> and \<open>limit: instituteId ? undefined : 10\<close>:
  an absent id and the empty string are falsy. With an id the database compares it with
  the \<open>uuid\<close> key; without one it keeps the first ten institutes it delivers.
\<close>

definition given_id :: "string option \<Rightarrow> string option" where
  "given_id instituteId =
     (case instituteId of
        None \<Rightarrow> None
      | Some pk \<Rightarrow> (if pk = [] then None else Some pk))"

definition Institute_findAll_nested ::
  "(string \<Rightarrow> uuid option) \<Rightarrow> Delivery \<Rightarrow> string option \<Rightarrow> Store
     \<Rightarrow> (error + LoadedInstitute list) \<times> Store" where
  "Institute_findAll_nested uuid_in d instituteId s =
     (case given_id instituteId of
        Some pk \<Rightarrow>
          (case uuid_in pk of
             None \<Rightarrow> (Inl StorageError, issue (SelectInstitutesWithResults instituteId) s)
           | Some k \<Rightarrow>
               (Inr (map (load_institute d s)
                       (institutes_as d (filter (\<lambda>i. inst_id i = k) (institutes s)))),
                issue (SelectInstitutesWithResults instituteId) s))
      | None \<Rightarrow>
          (Inr (map (load_institute d s) (take 10 (institutes_as d (institutes s)))),
           issue (SelectInstitutesWithResults instituteId) s))"

record InstituteRef =
  ref_id :: uuid
  ref_name :: string
  ref_location :: string

record StudentRef =
  sref_id :: uuid
  sref_name :: string
  sref_email :: string
  sref_institute :: InstituteRef

record FlatResult =
  fr_id :: uuid
  fr_score :: rat
  fr_grade :: string
  fr_year :: int
  fr_course :: "Course option"
  fr_student :: StudentRef

record InstituteResults =
  ir_institute :: InstituteRef
  ir_results :: "FlatResult list"
  ir_averageScore :: rat
  ir_totalStudents :: nat

definition institute_ref :: "LoadedInstitute \<Rightarrow> InstituteRef" where
  "institute_ref instituteData =
     \<lparr>ref_id = li_id instituteData, ref_name = li_name instituteData,
      ref_location = li_location instituteData\<rparr>"

text \<open>
  The body of the inner \<open>forEach\<close>: push the annotated result, then
  \<open>totalScore += parseFloat(result.score)\<close>. The accumulator is the pair
  \<open>(allResults, totalScore)\<close>; \<open>totalScore\<close> is a double.
\<close>

definition push_result ::
  "LoadedInstitute \<Rightarrow> LoadedStudent \<Rightarrow> LoadedResult \<Rightarrow> FlatResult list \<times> rat \<Rightarrow> FlatResult list \<times> rat" where
  "push_result instituteData student r acc =
     (fst acc @ [\<lparr>fr_id = lr_id r, fr_score = lr_score r, fr_grade = lr_grade r,
                  fr_year = lr_year r, fr_course = lr_course r,
                  fr_student = \<lparr>sref_id = ls_id student, sref_name = ls_name student,
                                 sref_email = ls_email student,
                                 sref_institute = institute_ref instituteData\<rparr>\<rparr>],
      js_add (snd acc) (parseFloat (lr_score r)))"

definition each_student ::
  "LoadedInstitute \<Rightarrow> LoadedStudent \<Rightarrow> FlatResult list \<times> rat \<Rightarrow> FlatResult list \<times> rat" where
  "each_student instituteData student acc =
     (case ls_results student of
        None \<Rightarrow> acc
      | Some rs \<Rightarrow> fold (push_result instituteData student) rs acc)"

definition aggregate :: "LoadedInstitute \<Rightarrow> FlatResult list \<times> rat" where
  "aggregate instituteData =
     (case li_students instituteData of
        None \<Rightarrow> ([], 0)
      | Some sts \<Rightarrow> fold (each_student instituteData) sts ([], 0))"

text \<open>
  \<open>allResults.length > 0 ? totalScore / allResults.length : 0\<close>: a division of doubles;
  the length is an integer below \<open>2^53\<close> and is its own double.
\<close>

definition rollup :: "LoadedInstitute \<Rightarrow> InstituteResults" where
  "rollup instituteData =
     (let acc = aggregate instituteData;
          allResults = fst acc;
          totalScore = snd acc
      in \<lparr>ir_institute = institute_ref instituteData,
          ir_results = allResults,
          ir_averageScore =
            (if length allResults > 0 then js_div totalScore (of_nat (length allResults)) else 0),
          ir_totalStudents =
            (case li_students instituteData of None \<Rightarrow> 0 | Some sts \<Rightarrow> length sts)\<rparr>)"

definition resultsPerInstitute ::
  "(string \<Rightarrow> uuid option) \<Rightarrow> Delivery \<Rightarrow> AuthContext \<Rightarrow> string option \<Rightarrow> Store
     \<Rightarrow> (error + InstituteResults list) \<times> Store" where
  "resultsPerInstitute uuid_in d ctx instituteId s =
     (case requireAuth ctx of
        Inl e \<Rightarrow> (Inl e, s)
      | Inr _ \<Rightarrow>
          (case Institute_findAll_nested uuid_in d instituteId s of
             (Inl e, s1) \<Rightarrow> (Inl e, s1)
           | (Inr insts, s1) \<Rightarrow> (Inr (map rollup insts), s1)))"

subsection \<open>topCourses\<close>

text \<open>
  The aggregate query: \<open>WHERE year = :year GROUP BY courseId\<close> with \<open>COUNT(id)\<close>,
  \<open>ORDER BY enrollmentCount DESC LIMIT :limit\<close>. The join to the course table is a
  left outer join that selects no column, so it neither drops nor multiplies rows.
  Groups are formed in the order their key is met and sorted by a stable sort on the
  count; which of two equal counts comes first is the database's choice. The database
  rejects a negative \<open>LIMIT\<close>; without a limit (\<open>None\<close>) no \<open>LIMIT\<close> is sent and every
  group is returned.
\<close>

record EnrollmentRow =
  er_courseId :: uuid
  er_enrollmentCount :: nat

definition limited :: "int option \<Rightarrow> 'a list \<Rightarrow> 'a list" where
  "limited lim_arg rows = (case lim_arg of None \<Rightarrow> rows | Some n \<Rightarrow> take (nat n) rows)"

definition Result_enrollment_by_course ::
  "int \<Rightarrow> int option \<Rightarrow> Store \<Rightarrow> (error + EnrollmentRow list) \<times> Store" where
  "Result_enrollment_by_course yr lim_arg s =
     (let s1 = issue (SelectEnrollmentByCourse yr lim_arg) s
      in if (case lim_arg of None \<Rightarrow> False | Some n \<Rightarrow> n < 0) then (Inl StorageError, s1)
         else
           let rows = filter (\<lambda>r. res_year r = yr) (results s);
               groups = map (\<lambda>cid. \<lparr>er_courseId = cid,
                                    er_enrollmentCount =
                                      length (filter (\<lambda>r. res_courseId r = cid) rows)\<rparr>)
                          (remdups (map res_courseId rows))
           in (Inr (limited lim_arg (sort_key (\<lambda>g. - int (er_enrollmentCount g)) groups)), s1))"

record TopCourse =
  tc_course :: "Course option"
  tc_enrollmentCount :: nat
  tc_year :: int

text \<open>
  \<open>{ year, limit = 10 }\<close>: the default applies when the argument is omitted, not when it
  is \<open>null\<close>; a \<open>null\<close> limit reaches the query, which then sends no \<open>LIMIT\<close>.
\<close>

definition limit_option :: "int js_arg \<Rightarrow> int option" where
  "limit_option lim_in =
     (case lim_in of Omitted \<Rightarrow> Some 10 | Null \<Rightarrow> None | Given n \<Rightarrow> Some n)"

text \<open>
  Each winning row is completed by \<open>Course.findByPk\<close>; \<open>parseInt\<close> of the count's text
  is the count.
\<close>

definition with_course_details :: "Store \<Rightarrow> int \<Rightarrow> EnrollmentRow \<Rightarrow> TopCourse" where
  "with_course_details s yr row =
     \<lparr>tc_course = find (\<lambda>c. crs_id c = er_courseId row) (courses s),
      tc_enrollmentCount = er_enrollmentCount row,
      tc_year = yr\<rparr>"

definition topCourses ::
  "AuthContext \<Rightarrow> int \<Rightarrow> int js_arg \<Rightarrow> Store \<Rightarrow> (error + TopCourse list) \<times> Store" where
  "topCourses ctx yr lim_in s =
     (case requireAuth ctx of
        Inl e \<Rightarrow> (Inl e, s)
      | Inr _ \<Rightarrow>
          (case Result_enrollment_by_course yr (limit_option lim_in) s of
             (Inl e, s1) \<Rightarrow> (Inl e, s1)
           | (Inr rows, s1) \<Rightarrow>
               (Inr (map (with_course_details s yr) rows),
                s1\<lparr>calls := calls s1 @ map (\<lambda>row. SelectCourseById (er_courseId row)) rows\<rparr>)))"

subsection \<open>topStudents\<close>

text \<open>
  The aggregate query: \<open>GROUP BY studentId\<close> with \<open>SUM(score)\<close>, \<open>AVG(score)\<close> and
  \<open>COUNT(id)\<close>, \<open>ORDER BY totalScore DESC LIMIT :limit\<close>, over the results of all years.
  The database adds decimals exactly. Its \<open>AVG\<close> is a decimal too, the quotient cut to
  a scale the database chooses; it is an argument \<open>db_avg\<close> of the model.
\<close>

record ScoreRow =
  sr_studentId :: uuid
  sr_totalScore :: rat
  sr_averageScore :: rat
  sr_resultCount :: nat

definition score_row :: "(rat list \<Rightarrow> rat) \<Rightarrow> Result list \<Rightarrow> uuid \<Rightarrow> ScoreRow" where
  "score_row db_avg rows sid =
     (let mine = map res_score (filter (\<lambda>r. res_studentId r = sid) rows)
      in \<lparr>sr_studentId = sid,
          sr_totalScore = sum_list mine,
          sr_averageScore = db_avg mine,
          sr_resultCount = length mine\<rparr>)"

definition Result_scores_by_student ::
  "(rat list \<Rightarrow> rat) \<Rightarrow> int option \<Rightarrow> Store \<Rightarrow> (error + ScoreRow list) \<times> Store" where
  "Result_scores_by_student db_avg lim_arg s =
     (let s1 = issue (SelectScoresByStudent lim_arg) s
      in if (case lim_arg of None \<Rightarrow> False | Some n \<Rightarrow> n < 0) then (Inl StorageError, s1)
         else
           let groups = map (score_row db_avg (results s)) (remdups (map res_studentId (results s)))
           in (Inr (limited lim_arg (sort_key (\<lambda>g. - sr_totalScore g) groups)), s1))"

record TopStudent =
  ts_student :: "(Student \<times> Institute option) option"
  ts_totalScore :: rat
  ts_averageScore :: rat
  ts_resultCount :: nat

definition Student_with_institute :: "Store \<Rightarrow> uuid \<Rightarrow> (Student \<times> Institute option) option" where
  "Student_with_institute s pk =
     (case find (\<lambda>st. stu_id st = pk) (students s) of
        None \<Rightarrow> None
      | Some st \<Rightarrow> Some (st, find (\<lambda>i. inst_id i = stu_instituteId st) (institutes s)))"

text \<open>
  Each winning row is completed by \<open>Student.findByPk\<close>; the sum and the average are
  \<open>parseFloat\<close> of the database's decimal text, the count is \<open>parseInt\<close> of its text.
\<close>

definition with_student_details :: "Store \<Rightarrow> ScoreRow \<Rightarrow> TopStudent" where
  "with_student_details s row =
     \<lparr>ts_student = Student_with_institute s (sr_studentId row),
      ts_totalScore = parseFloat (sr_totalScore row),
      ts_averageScore = parseFloat (sr_averageScore row),
      ts_resultCount = sr_resultCount row\<rparr>"

definition topStudents ::
  "(rat list \<Rightarrow> rat) \<Rightarrow> AuthContext \<Rightarrow> int js_arg \<Rightarrow> Store \<Rightarrow> (error + TopStudent list) \<times> Store" where
  "topStudents db_avg ctx lim_in s =
     (case requireAuth ctx of
        Inl e \<Rightarrow> (Inl e, s)
      | Inr _ \<Rightarrow>
          (case Result_scores_by_student db_avg (limit_option lim_in) s of
             (Inl e, s1) \<Rightarrow> (Inl e, s1)
           | (Inr rows, s1) \<Rightarrow>
               (Inr (map (with_student_details s) rows),
                s1\<lparr>calls := calls s1
                      @ map (\<lambda>row. SelectStudentWithInstituteById (sr_studentId row)) rows\<rparr>)))"

section \<open>The authorization step of every resolver (graphql/resolvers/*.ts)\<close>

text \<open>
  The root resolvers merged in \<open>resolvers/index.ts\<close>, and for each the check it makes
  on the request context before anything else: \<open>me\<close> tests \<open>context.user\<close> itself,
  \<open>institutes\<close>, \<open>signUp\<close> and \<open>signIn\<close> make no check, every other resolver calls
  \<open>requireAuth(context)\<close> as its first statement.
\<close>

datatype Resolver =
    Query_me | Query_institute | Query_institutes | Query_student | Query_students
  | Query_course | Query_courses | Query_result | Query_results
  | Query_allData | Query_resultsPerInstitute | Query_topCourses | Query_topStudents
  | Mutation_signUp | Mutation_signIn
  | Mutation_createInstitute | Mutation_updateInstitute | Mutation_deleteInstitute
  | Mutation_createStudent | Mutation_updateStudent | Mutation_deleteStudent
  | Mutation_createCourse | Mutation_updateCourse | Mutation_deleteCourse
  | Mutation_createResult | Mutation_updateResult | Mutation_deleteResult

fun authorization :: "Resolver \<Rightarrow> AuthContext \<Rightarrow> error + unit" where
  "authorization Query_me ctx =
     (case user ctx of
        None \<Rightarrow> Inl (GraphQLError ''Not authenticated'' UNAUTHENTICATED)
      | Some u \<Rightarrow> Inr ())"
| "authorization Query_institute ctx = requireAuth ctx"
| "authorization Query_institutes ctx = Inr ()"
| "authorization Query_student ctx = requireAuth ctx"
| "authorization Query_students ctx = requireAuth ctx"
| "authorization Query_course ctx = requireAuth ctx"
| "authorization Query_courses ctx = requireAuth ctx"
| "authorization Query_result ctx = requireAuth ctx"
| "authorization Query_results ctx = requireAuth ctx"
| "authorization Query_allData ctx = requireAuth ctx"
| "authorization Query_resultsPerInstitute ctx = requireAuth ctx"
| "authorization Query_topCourses ctx = requireAuth ctx"
| "authorization Query_topStudents ctx = requireAuth ctx"
| "authorization Mutation_signUp ctx = Inr ()"
| "authorization Mutation_signIn ctx = Inr ()"
| "authorization Mutation_createInstitute ctx = requireAuth ctx"
| "authorization Mutation_updateInstitute ctx = requireAuth ctx"
| "authorization Mutation_deleteInstitute ctx = requireAuth ctx"
| "authorization Mutation_createStudent ctx = requireAuth ctx"
| "authorization Mutation_updateStudent ctx = requireAuth ctx"
| "authorization Mutation_deleteStudent ctx = requireAuth ctx"
| "authorization Mutation_createCourse ctx = requireAuth ctx"
| "authorization Mutation_updateCourse ctx = requireAuth ctx"
| "authorization Mutation_deleteCourse ctx = requireAuth ctx"
| "authorization Mutation_createResult ctx = requireAuth ctx"
| "authorization Mutation_updateResult ctx = requireAuth ctx"
| "authorization Mutation_deleteResult ctx = requireAuth ctx"

text \<open>
  The errors each root resolver constructs itself after its authorization step: every
  \<open>throw new GraphQLError\<close> of its body, in source order.
\<close>

fun thrown :: "Resolver \<Rightarrow> error list" where
  "thrown Query_me = []"
| "thrown Query_institute = [GraphQLError ''Institute not found'' NOT_FOUND]"
| "thrown Query_institutes = []"
| "thrown Query_student = [GraphQLError ''Student not found'' NOT_FOUND]"
| "thrown Query_students = []"
| "thrown Query_course = [GraphQLError ''Course not found'' NOT_FOUND]"
| "thrown Query_courses = []"
| "thrown Query_result = [GraphQLError ''Result not found'' NOT_FOUND]"
| "thrown Query_results = []"
| "thrown Query_allData = []"
| "thrown Query_resultsPerInstitute = []"
| "thrown Query_topCourses = []"
| "thrown Query_topStudents = []"
| "thrown Mutation_signUp =
     [GraphQLError ''User with this email already exists'' BAD_USER_INPUT,
      GraphQLError ''Institute not found'' BAD_USER_INPUT]"
| "thrown Mutation_signIn =
     [GraphQLError ''Invalid credentials'' UNAUTHENTICATED,
      GraphQLError ''Invalid credentials'' UNAUTHENTICATED]"
| "thrown Mutation_createInstitute = []"
| "thrown Mutation_updateInstitute = [GraphQLError ''Institute not found'' NOT_FOUND]"
| "thrown Mutation_deleteInstitute = [GraphQLError ''Institute not found'' NOT_FOUND]"
| "thrown Mutation_createStudent =
     [GraphQLError ''Institute not found'' BAD_USER_INPUT,
      GraphQLError ''User not found'' BAD_USER_INPUT]"
| "thrown Mutation_updateStudent = [GraphQLError ''Student not found'' NOT_FOUND]"
| "thrown Mutation_deleteStudent = [GraphQLError ''Student not found'' NOT_FOUND]"
| "thrown Mutation_createCourse =
     [GraphQLError ''Course with this code already exists'' BAD_USER_INPUT]"
| "thrown Mutation_updateCourse =
     [GraphQLError ''Course not found'' NOT_FOUND,
      GraphQLError ''Course with this code already exists'' BAD_USER_INPUT]"
| "thrown Mutation_deleteCourse = [GraphQLError ''Course not found'' NOT_FOUND]"
| "thrown Mutation_createResult =
     [GraphQLError ''Student not found'' BAD_USER_INPUT,
      GraphQLError ''Course not found'' BAD_USER_INPUT]"
| "thrown Mutation_updateResult = [GraphQLError ''Result not found'' NOT_FOUND]"
| "thrown Mutation_deleteResult = [GraphQLError ''Result not found'' NOT_FOUND]"

section \<open>Reference notions for the aggregation claims\<close>

text \<open>
  The quantities the specification speaks of, written directly over the tables: the
  students of an institute, the scores of all their results, the scores of one student,
  the enrolments of a course in a year, and the arithmetic mean (0 for no values).
\<close>

definition institute_students :: "Store \<Rightarrow> uuid \<Rightarrow> Student list" where
  "institute_students s iid = filter (\<lambda>st. stu_instituteId st = iid) (students s)"

definition institute_scores :: "Store \<Rightarrow> uuid \<Rightarrow> rat list" where
  "institute_scores s iid =
     concat (map (\<lambda>st. map res_score (filter (\<lambda>r. res_studentId r = stu_id st) (results s)))
               (institute_students s iid))"



definition arithmetic_mean :: "rat list \<Rightarrow> rat" where
  "arithmetic_mean xs = (if xs = [] then 0 else sum_list xs / of_nat (length xs))"

text \<open>
  The mean in double arithmetic: the scores are parsed and added one by one from 0, in
  the order given, each sum rounded, and the total is divided by their number.
\<close>

definition double_mean :: "rat list \<Rightarrow> rat" where
  "double_mean xs =
     (if xs = [] then 0
      else js_div (foldl js_add 0 (map parseFloat xs)) (of_nat (length xs)))"




text \<open>
  The institutes one run of the nested query selects: none when the given id is not UUID
  syntax.
\<close>

definition selected ::
  "(string \<Rightarrow> uuid option) \<Rightarrow> Delivery \<Rightarrow> string option \<Rightarrow> Store \<Rightarrow> Institute list option" where
  "selected uuid_in d iid s =
     (case given_id iid of
        Some pk \<Rightarrow>
          (case uuid_in pk of
             None \<Rightarrow> None
           | Some k \<Rightarrow> Some (institutes_as d (filter (\<lambda>i. inst_id i = k) (institutes s))))
      | None \<Rightarrow> Some (take 10 (institutes_as d (institutes s))))"

definition ref_of :: "Institute \<Rightarrow> InstituteRef" where
  "ref_of i = \<lparr>ref_id = inst_id i, ref_name = inst_name i, ref_location = inst_location i\<rparr>"

text \<open>Reading a resolver's answer: the returned list, the institute names, the course ids.\<close>

definition entries :: "error + 'a list \<Rightarrow> 'a list" where
  "entries res = (case res of Inl e \<Rightarrow> [] | Inr xs \<Rightarrow> xs)"

definition rollup_names :: "error + InstituteResults list \<Rightarrow> string list" where
  "rollup_names res = map (\<lambda>r. ref_name (ir_institute r)) (entries res)"


definition raises_forbidden :: "error + 'a \<Rightarrow> bool" where
  "raises_forbidden res = (case res of Inl e \<Rightarrow> error_code e = Some FORBIDDEN | Inr v \<Rightarrow> False)"

section \<open>Sample data\<close>

text \<open>
  Keys are UUIDs that differ in their last four digits. The sample conversion accepts
  the canonical lower-case form of a UUID and nothing else; the sample delivery hands
  rows over in table order; the sample average is the quotient to sixteen decimal
  places.
\<close>

definition uid :: "string \<Rightarrow> uuid" where
  "uid tail = ''00000000-0000-4000-8000-00000000'' @ tail"

definition hex_digit :: "char \<Rightarrow> bool" where
  "hex_digit c = (c \<in> set ''0123456789abcdef'')"

definition canonical_uuid :: "string \<Rightarrow> bool" where
  "canonical_uuid t =
     (length t = 36
      \<and> list_all hex_digit (take 8 t) \<and> t ! 8 = CHR ''-''
      \<and> list_all hex_digit (take 4 (drop 9 t)) \<and> t ! 13 = CHR ''-''
      \<and> list_all hex_digit (take 4 (drop 14 t)) \<and> t ! 18 = CHR ''-''
      \<and> list_all hex_digit (take 4 (drop 19 t)) \<and> t ! 23 = CHR ''-''
      \<and> list_all hex_digit (drop 24 t))"

definition sample_uuid_in :: "string \<Rightarrow> uuid option" where
  "sample_uuid_in t = (if canonical_uuid t then Some t else None)"

definition table_order :: Delivery where
  "table_order = \<lparr>institutes_as = (\<lambda>xs. xs), students_as = (\<lambda>xs. xs), results_as = (\<lambda>xs. xs)\<rparr>"


definition sample_principal :: AuthUser where
  "sample_principal =
     \<lparr>auth_id = uid ''a001'', auth_email = ''s1@example.org'', auth_role = ''student''\<rparr>"

definition student_ctx :: AuthContext where
  "student_ctx = \<lparr>user = Some sample_principal\<rparr>"

definition sample_user :: "string \<Rightarrow> User" where
  "sample_user n =
     \<lparr>user_id = uid (''a00'' @ n), user_email = ''s'' @ n @ ''@example.org'',
      user_password = ''hash-of-secret'', user_role = ''student''\<rparr>"

definition hash_matches :: "string \<Rightarrow> string \<Rightarrow> bool" where
  "hash_matches password hashed = (hashed = ''hash-of-'' @ password)"

definition sign_stub :: "AuthUser \<Rightarrow> string" where
  "sign_stub u = ''token-for-'' @ auth_id u"

definition has_at_sign :: "string \<Rightarrow> bool" where
  "has_at_sign e = (CHR ''@'' \<in> set e)"

definition sample_institute :: Institute where
  "sample_institute = \<lparr>inst_id = uid ''1001'', inst_name = ''North'', inst_location = ''Dhaka''\<rparr>"

definition sample_student :: "string \<Rightarrow> Student" where
  "sample_student n =
     \<lparr>stu_id = uid (''500'' @ n), stu_name = ''S'' @ n, stu_email = ''s'' @ n @ ''@example.org'',
      stu_instituteId = uid ''1001'', stu_userId = uid (''a00'' @ n)\<rparr>"

definition sample_course :: "string \<Rightarrow> Course" where
  "sample_course n =
     \<lparr>crs_id = uid (''c00'' @ n), crs_title = ''Course C'' @ n, crs_code = ''C'' @ n,
      crs_credits = 3\<rparr>"

text \<open>
  \<open>scored tail n c x yr\<close>: the result with key tail \<open>tail\<close> of student \<open>n\<close> in course
  \<open>c\<close>, with score \<open>x\<close> in year \<open>yr\<close>.
\<close>

definition scored :: "string \<Rightarrow> string \<Rightarrow> string \<Rightarrow> rat \<Rightarrow> int \<Rightarrow> Result" where
  "scored tail n c x yr =
     \<lparr>res_id = uid tail, res_studentId = uid (''500'' @ n), res_courseId = uid (''c00'' @ c),
      res_score = x, res_grade = ''A'', res_year = yr\<rparr>"

text \<open>Results \<open>{S1: 90 + 80, S2: 100, S3: 50}\<close>, stored in no particular order.\<close>

definition three_students :: Store where
  "three_students =
     \<lparr>users = map sample_user [''1'', ''2'', ''3''], institutes = [sample_institute],
      students = map sample_student [''1'', ''2'', ''3''],
      courses = map sample_course [''1'', ''2''],
      results = [scored ''e001'' ''3'' ''1'' 50 2024, scored ''e002'' ''1'' ''1'' 90 2023,
                 scored ''e003'' ''2'' ''1'' 100 2024, scored ''e004'' ''1'' ''2'' 80 2024],
      calls = []\<rparr>"

text \<open>One student with the scores 0.10 and 0.20.\<close>

definition two_tenths :: Store where
  "two_tenths =
     \<lparr>users = [sample_user ''1''], institutes = [sample_institute],
      students = [sample_student ''1''],
      courses = map sample_course [''1'', ''2''],
      results = [scored ''e001'' ''1'' ''1'' (1 / 10) 2024, scored ''e002'' ''1'' ''2'' (2 / 10) 2024],
      calls = []\<rparr>"


definition enrol :: "string \<Rightarrow> string \<Rightarrow> int \<Rightarrow> string \<Rightarrow> Result" where
  "enrol y c yr n = scored (''e'' @ y @ c @ n) n c 70 yr"

text \<open>
  Enrolments \<open>{C1: 5, C2: 5, C3: 2}\<close> in 2024, and in 2023 four more for \<open>C3\<close> and one for
  \<open>C4\<close>.
\<close>

definition enrolled_2024 :: Store where
  "enrolled_2024 =
     \<lparr>users = map sample_user [''1'', ''2'', ''3'', ''4'', ''5''],
      institutes = [sample_institute],
      students = map sample_student [''1'', ''2'', ''3'', ''4'', ''5''],
      courses = map sample_course [''1'', ''2'', ''3'', ''4''],
      results = map (enrol ''3'' ''3'' 2023) [''1'', ''2'', ''3'', ''4'']
              @ map (enrol ''4'' ''1'' 2024) [''1'', ''2'', ''3'', ''4'', ''5'']
              @ map (enrol ''4'' ''3'' 2024) [''1'', ''2'']
              @ [enrol ''3'' ''4'' 2023 ''1'']
              @ map (enrol ''4'' ''2'' 2024) [''1'', ''2'', ''3'', ''4'', ''5''],
      calls = []\<rparr>"

definition named_institute :: "string \<Rightarrow> Institute" where
  "named_institute nm =
     \<lparr>inst_id = uid (''10'' @ nm), inst_name = nm, inst_location = ''Dhaka''\<rparr>"

text \<open>
  Eleven institutes, named by two hexadecimal digits, whose table order is the reverse
  of their order by name.
\<close>

definition eleven_institutes :: Store where
  "eleven_institutes =
     \<lparr>users = [sample_user ''1''],
      institutes = map named_institute
        [''bb'', ''ba'', ''b9'', ''b8'', ''b7'', ''b6'', ''b5'', ''b4'', ''b3'', ''b2'', ''b1''],
      students = [], courses = [], results = [], calls = []\<rparr>"

section \<open>Auxiliary facts\<close>

subsection \<open>Lookups\<close>

lemma find_None_conv: "(find P xs = None) = (\<not> (\<exists>x \<in> set xs. P x))"
  by (induction xs) auto

lemma find_SomeD: "find P xs = Some x \<Longrightarrow> x \<in> set xs \<and> P x"
  by (induction xs) (auto split: if_splits)

lemma find_Some_ex: "\<exists>x \<in> set xs. P x \<Longrightarrow> \<exists>y. find P xs = Some y"
  by (induction xs) auto

lemma filter_key_le_1: "distinct (map f xs) \<Longrightarrow> length (filter (\<lambda>x. f x = k) xs) \<le> 1"
proof (induction xs)
  case Nil
  then show ?case by simp
next
  case (Cons a xs)
  show ?case
  proof (cases "f a = k")
    case True
    from Cons.prems have "f a \<notin> f ` set xs" by simp
    with True have "\<forall>x \<in> set xs. f x \<noteq> k" by blast
    then have "filter (\<lambda>x. f x = k) xs = []" by (simp add: filter_empty_conv)
    with True show ?thesis by simp
  next
    case False
    with Cons show ?thesis by simp
  qed
qed

subsection \<open>Rows delivered in another order\<close>

lemma delivered_length: "mset ys = mset xs \<Longrightarrow> length ys = length xs"
  by (metis size_mset)

lemma delivered_map: "mset ys = mset xs \<Longrightarrow> mset (map f ys) = mset (map f xs)"
  by (metis mset_map)

lemma delivered_concat:
  "mset ys = mset xs \<Longrightarrow> mset (concat (map f ys)) = mset (concat (map f xs))"
proof -
  assume "mset ys = mset xs"
  then have same: "mset (map (\<lambda>x. mset (f x)) ys) = mset (map (\<lambda>x. mset (f x)) xs)"
    by (rule delivered_map)
  have flat: "mset (concat (map f zs)) = sum_mset (mset (map (\<lambda>x. mset (f x)) zs))" for zs
    by (induction zs) simp_all
  show ?thesis
    by (simp only: flat same)
qed

lemma mset_take_subseteq: "mset (take n xs) \<subseteq># mset xs"
proof -
  have "mset xs = mset (take n xs) + mset (drop n xs)"
    by (metis append_take_drop_id mset_append)
  then show ?thesis by simp
qed

subsection \<open>The sample conversion, delivery and numbers\<close>

lemma uid_eq: "(uid a = uid b) = (a = b)"
  by (simp add: uid_def)

lemma sample_uuid_in_uid:
  "list_all hex_digit [a, b, c, d] \<Longrightarrow> sample_uuid_in (uid [a, b, c, d]) = Some (uid [a, b, c, d])"
  by (simp add: sample_uuid_in_def canonical_uuid_def uid_def hex_digit_def)

lemma sample_uuid_in_short: "length t < 36 \<Longrightarrow> sample_uuid_in t = None"
  by (simp add: sample_uuid_in_def canonical_uuid_def)

lemma delivers_table_order: "delivers table_order"
  by (simp add: delivers_def table_order_def)


subsection \<open>The accumulator loops of the institute rollup\<close>

lemma fold_push_scores:
  "map fr_score (fst (fold (push_result i st) rs acc)) = map fr_score (fst acc) @ map lr_score rs"
  by (induction rs arbitrary: acc) (simp_all add: push_result_def)

lemma fold_push_total:
  "snd (fold (push_result i st) rs acc) = foldl js_add (snd acc) (map parseFloat (map lr_score rs))"
  by (induction rs arbitrary: acc) (simp_all add: push_result_def)

lemma each_student_scores:
  "map fr_score (fst (each_student i (load_student d s st) acc))
     = map fr_score (fst acc)
       @ map res_score (results_as d (filter (\<lambda>r. res_studentId r = stu_id st) (results s)))"
  by (simp add: each_student_def load_student_def fold_push_scores load_result_def comp_def)

lemma each_student_total:
  "snd (each_student i (load_student d s st) acc)
     = foldl js_add (snd acc)
         (map parseFloat
            (map res_score (results_as d (filter (\<lambda>r. res_studentId r = stu_id st) (results s)))))"
  by (simp add: each_student_def load_student_def fold_push_total load_result_def comp_def)

text \<open>
  The loop invariant: the running total is the double sum, from 0, of the scores pushed
  so far, in the order they were pushed.
\<close>

lemma fold_each_student_invariant:
  assumes "snd acc = foldl js_add 0 (map parseFloat (map fr_score (fst acc)))"
  shows "snd (fold (each_student i) (map (load_student d s) sts) acc)
           = foldl js_add 0
               (map parseFloat (map fr_score (fst (fold (each_student i) (map (load_student d s) sts) acc))))"
  using assms
proof (induction sts arbitrary: acc)
  case Nil
  then show ?case by simp
next
  case (Cons st sts)
  have "snd (each_student i (load_student d s st) acc)
          = foldl js_add 0
              (map parseFloat (map fr_score (fst (each_student i (load_student d s st) acc))))"
    by (simp add: each_student_total each_student_scores Cons.prems)
  then show ?case
    using Cons.IH [of "each_student i (load_student d s st) acc"] by simp
qed

lemma fold_each_student_scores:
  "map fr_score (fst (fold (each_student i) (map (load_student d s) sts) acc))
     = map fr_score (fst acc)
       @ concat (map (\<lambda>st. map res_score
                         (results_as d (filter (\<lambda>r. res_studentId r = stu_id st) (results s)))) sts)"
  by (induction sts arbitrary: acc) (simp_all add: each_student_scores)

lemma concat_pointwise:
  "(\<And>x. mset (f x) = mset (g x)) \<Longrightarrow> mset (concat (map f zs)) = mset (concat (map g zs))"
  by (induction zs) simp_all

lemma rollup_load_institute:
  assumes "delivers d"
  shows "ir_institute (rollup (load_institute d s i)) = ref_of i
   \<and> mset (map fr_score (ir_results (rollup (load_institute d s i))))
       = mset (institute_scores s (inst_id i))
   \<and> ir_averageScore (rollup (load_institute d s i))
       = double_mean (map fr_score (ir_results (rollup (load_institute d s i))))
   \<and> ir_totalStudents (rollup (load_institute d s i)) = length (institute_students s (inst_id i))"
proof -
  let ?li = "load_institute d s i"
  let ?sts = "students_as d (institute_students s (inst_id i))"
  let ?of = "\<lambda>st. map res_score (results_as d (filter (\<lambda>r. res_studentId r = stu_id st) (results s)))"
  let ?plain = "\<lambda>st. map res_score (filter (\<lambda>r. res_studentId r = stu_id st) (results s))"
  have res: "ir_results (rollup ?li) = fst (aggregate ?li)"
    by (simp add: rollup_def Let_def)
  have agg: "aggregate ?li = fold (each_student ?li) (map (load_student d s) ?sts) ([], 0)"
    by (simp add: aggregate_def load_institute_def institute_students_def)
  have sc: "map fr_score (fst (aggregate ?li)) = concat (map ?of ?sts)"
    unfolding agg by (simp add: fold_each_student_scores)
  have "mset (?of st) = mset (?plain st)" for st
    using assms by (simp add: delivers_def)
  then have "mset (concat (map ?of ?sts)) = mset (concat (map ?plain ?sts))"
    by (rule concat_pointwise)
  also have "\<dots> = mset (concat (map ?plain (institute_students s (inst_id i))))"
    using assms by (intro delivered_concat) (simp add: delivers_def)
  finally have ms: "mset (map fr_score (fst (aggregate ?li))) = mset (institute_scores s (inst_id i))"
    by (simp add: sc institute_scores_def)
  have tot: "snd (aggregate ?li)
               = foldl js_add 0 (map parseFloat (map fr_score (fst (aggregate ?li))))"
    unfolding agg by (rule fold_each_student_invariant) simp
  have avg: "ir_averageScore (rollup ?li) = double_mean (map fr_score (fst (aggregate ?li)))"
    using tot by (simp add: rollup_def Let_def double_mean_def comp_def)
  have "length ?sts = length (institute_students s (inst_id i))"
    using assms by (intro delivered_length) (simp add: delivers_def)
  then have n: "ir_totalStudents (rollup ?li) = length (institute_students s (inst_id i))"
    by (simp add: rollup_def Let_def load_institute_def institute_students_def)
  have "ir_institute (rollup ?li) = ref_of i"
    by (simp add: rollup_def Let_def institute_ref_def ref_of_def load_institute_def)
  with ms avg n res show ?thesis by simp
qed

subsection \<open>What \<open>resultsPerInstitute\<close> returns to an authenticated caller\<close>

lemma resultsPerInstitute_ok:
  "user ctx = Some who \<Longrightarrow>
   fst (resultsPerInstitute uuid_in d ctx iid s)
     = (case selected uuid_in d iid s of
          None \<Rightarrow> Inl StorageError
        | Some sel \<Rightarrow> Inr (map (\<lambda>i. rollup (load_institute d s i)) sel))"
  by (simp add: resultsPerInstitute_def requireAuth_def Institute_findAll_nested_def selected_def
        comp_def split: option.splits)

lemma resultsPerInstitute_Inr:
  assumes "fst (resultsPerInstitute uuid_in d ctx iid s) = Inr out"
  shows "\<exists>sel. selected uuid_in d iid s = Some sel
           \<and> out = map (\<lambda>i. rollup (load_institute d s i)) sel"
  using assms
  by (auto simp: resultsPerInstitute_def requireAuth_def Institute_findAll_nested_def selected_def
        comp_def split: option.splits)

lemma selected_subset:
  assumes "delivers d" and "selected uuid_in d iid s = Some sel"
  shows "set sel \<subseteq> set (institutes s)"
proof -
  have a: "set (institutes_as d xs) = set xs" for xs
    using assms(1) by (metis delivers_def mset_eq_setD)
  from assms(2) show ?thesis
    by (auto simp: selected_def a split: option.splits dest: in_set_takeD)
qed

subsection \<open>The first rows in descending order of a key\<close>






lemma limited_take:
  "limited lim_arg xs = take (case lim_arg of None \<Rightarrow> length xs | Some n \<Rightarrow> nat n) xs"
  by (simp add: limited_def split: option.splits)

subsection \<open>What the ranking resolvers return to an authenticated caller\<close>





subsection \<open>Errors that are never \<open>FORBIDDEN\<close>\<close>

lemma requireAuth_cases:
  "requireAuth ctx = Inr ()
   \<or> requireAuth ctx = Inl (GraphQLError ''Authentication required'' UNAUTHENTICATED)"
  by (simp add: requireAuth_def split: option.splits)

lemma createCourse_not_forbidden: "\<not> raises_forbidden (fst (createCourse ctx inp new_id s))"
  using requireAuth_cases [of ctx]
  by (auto simp: raises_forbidden_def createCourse_def Course_findOne_code_def Course_create_def
        Let_def split: option.splits sum.splits)

lemma Course_update_error: "fst (Course_update c inp s) = Inl e \<Longrightarrow> e = StorageError"
  by (auto simp: Course_update_def Let_def split: if_splits)

lemma updateCourse_not_forbidden: "\<not> raises_forbidden (fst (updateCourse ctx pk inp s))"
proof -
  have "error_code e \<noteq> Some FORBIDDEN" if "fst (updateCourse ctx pk inp s) = Inl e" for e
    using that requireAuth_cases [of ctx]
    by (auto simp: updateCourse_def Course_findByPk_def Course_findOne_code_def
          split: option.splits dest!: Course_update_error)
  then show ?thesis
    by (auto simp: raises_forbidden_def split: sum.splits)
qed

lemma Student_create_error:
  "fst (Student_create uuid_in isEmail inp new_id s) = Inl e \<Longrightarrow> e = StorageError"
  by (auto simp: Student_create_def Let_def split: if_splits option.splits)

lemma createStudent_not_forbidden:
  "\<not> raises_forbidden (fst (createStudent uuid_in isEmail ctx inp new_id s))"
proof -
  have "error_code e \<noteq> Some FORBIDDEN"
    if "fst (createStudent uuid_in isEmail ctx inp new_id s) = Inl e" for e
    using that requireAuth_cases [of ctx]
    by (auto simp: createStudent_def Institute_findByPk_def User_findByPk_def
          split: option.splits dest!: Student_create_error)
  then show ?thesis
    by (auto simp: raises_forbidden_def split: sum.splits)
qed

lemma signIn_not_forbidden: "\<not> raises_forbidden (fst (signIn bcrypt_compare jwt_sign inp s))"
  by (simp add: raises_forbidden_def signIn_def User_findOne_email_def split: option.splits)

lemma resultsPerInstitute_not_forbidden:
  "\<not> raises_forbidden (fst (resultsPerInstitute uuid_in d ctx iid s))"
  using requireAuth_cases [of ctx]
  by (auto simp: raises_forbidden_def resultsPerInstitute_def Institute_findAll_nested_def
        split: option.splits)

lemma enrollment_query_error:
  "Result_enrollment_by_course yr l s = (Inl e, s') \<Longrightarrow> e = StorageError"
  by (auto simp: Result_enrollment_by_course_def Let_def split: if_splits)

lemma scores_query_error:
  "Result_scores_by_student db_avg l s = (Inl e, s') \<Longrightarrow> e = StorageError"
  by (auto simp: Result_scores_by_student_def Let_def split: if_splits)

lemma topCourses_not_forbidden: "\<not> raises_forbidden (fst (topCourses ctx yr lim_in s))"
proof (cases "Result_enrollment_by_course yr (limit_option lim_in) s")
  case (Pair res s1)
  then show ?thesis
    using requireAuth_cases [of ctx] enrollment_query_error [of yr "limit_option lim_in" s _ s1]
    by (cases res) (auto simp: raises_forbidden_def topCourses_def)
qed

lemma topStudents_not_forbidden: "\<not> raises_forbidden (fst (topStudents db_avg ctx lim_in s))"
proof (cases "Result_scores_by_student db_avg (limit_option lim_in) s")
  case (Pair res s1)
  then show ?thesis
    using requireAuth_cases [of ctx] scores_query_error [of db_avg "limit_option lim_in" s _ s1]
    by (cases res) (auto simp: raises_forbidden_def topStudents_def)
qed

section \<open>Properties of the pagination helper\<close>

text \<open>
  C1, as stated, fails on the code: a negative limit is truthy, so \<open>||\<close> keeps it and
  \<open>Math.min\<close> leaves it below 100; a negative offset is kept in the same way. At
  limit \<open>-5\<close> and offset \<open>-3\<close> the normalizer returns \<open>(-5, -3)\<close>, not \<open>(10, 0)\<close>.
\<close>

theorem getPaginationParams_negative_counterexample:
  "getPaginationParams \<lparr>limit = Some (- 5), offset = Some (- 3)\<rparr> = (- 5, - 3)
   \<and> fst (getPaginationParams \<lparr>limit = Some (- 5), offset = Some (- 3)\<rparr>) \<noteq> 10
   \<and> snd (getPaginationParams \<lparr>limit = Some (- 5), offset = Some (- 3)\<rparr>) \<noteq> 0"
  by (simp add: getPaginationParams_def js_or_def)

text \<open>
  C1 (amended): the returned limit is 100 when the requested limit exceeds 100, 10 when
  it is absent or 0, and the requested limit itself otherwise (so a negative limit is
  returned unchanged); the returned offset is 0 when the requested offset is absent (or
  0) and the requested offset itself otherwise (so a negative offset is returned
  unchanged).
\<close>

theorem getPaginationParams_spec:
  "fst (getPaginationParams args) =
     (case limit args of
        None \<Rightarrow> 10
      | Some n \<Rightarrow> (if n > 100 then 100 else if n = 0 then 10 else n))
   \<and> snd (getPaginationParams args) =
     (case offset args of None \<Rightarrow> 0 | Some m \<Rightarrow> m)"
  by (simp add: getPaginationParams_def js_or_def Let_def split: option.splits)

text \<open>
  C3: for all items, total count, limit and offset passed to \<open>paginate\<close>, \<open>hasMore\<close> is
  true exactly when offset plus the number of items is below the total count, and the
  other four fields are the inputs, unchanged.
\<close>

theorem paginate_bundle:
  "hasMore (paginate its tc (Some l) (Some ofs)) = (ofs + int (length its) < tc)
   \<and> items (paginate its tc (Some l) (Some ofs)) = its
   \<and> totalCount (paginate its tc (Some l) (Some ofs)) = tc
   \<and> page_limit (paginate its tc (Some l) (Some ofs)) = l
   \<and> page_offset (paginate its tc (Some l) (Some ofs)) = ofs"
  by (simp add: paginate_def)

section \<open>Institute rollups\<close>

text \<open>
  C2, as stated, fails on the code: \<open>resultsPerInstitute\<close> passes no \<open>order\<close> to
  \<open>findAll\<close>, so without an id the ten institutes are the first ten the database
  delivers, not the first ten by name. With eleven institutes stored in reverse order
  of name and delivered in table order, the institute that is first by name, \<open>b1\<close>, is
  not among the rollups.
\<close>

theorem resultsPerInstitute_unordered_counterexample:
  "''b1'' \<notin> set (rollup_names
       (fst (resultsPerInstitute sample_uuid_in table_order student_ctx None eleven_institutes)))
   \<and> ''b1'' \<in> set (take 10 (sort (map inst_name (institutes eleven_institutes))))
   \<and> rollup_names
       (fst (resultsPerInstitute sample_uuid_in table_order student_ctx None eleven_institutes))
     \<noteq> take 10 (sort (map inst_name (institutes eleven_institutes)))"
proof -
  have a: "rollup_names
       (fst (resultsPerInstitute sample_uuid_in table_order student_ctx None eleven_institutes))
     = [''bb'', ''ba'', ''b9'', ''b8'', ''b7'', ''b6'', ''b5'', ''b4'', ''b3'', ''b2'']"
    by (simp add: rollup_names_def entries_def resultsPerInstitute_ok [of _ sample_principal]
          selected_def student_ctx_def given_id_def eleven_institutes_def table_order_def
          rollup_def load_institute_def institute_ref_def named_institute_def Let_def)
  have b: "take 10 (sort (map inst_name (institutes eleven_institutes)))
     = [''b1'', ''b2'', ''b3'', ''b4'', ''b5'', ''b6'', ''b7'', ''b8'', ''b9'', ''ba'']"
    by (simp add: eleven_institutes_def named_institute_def)
  show ?thesis unfolding a b by simp
qed

text \<open>
  C2 (amended): for an authenticated caller of \<open>resultsPerInstitute\<close>: if a non-empty
  instituteId of UUID syntax is given, the returned list holds the rollups of exactly
  the institutes with that id, so every rollup in it is for that institute and, ids
  being unique, there is at most one; if the given id is not UUID syntax the query fails
  with a database error; if the instituteId is omitted (or empty), the list holds the
  rollups of ten stored institutes (of all of them when there are fewer), which ones and
  in which order being the database's choice, not the order by name.
\<close>

theorem resultsPerInstitute_selection:
  assumes "user ctx = Some who" and "delivers d"
  shows "(\<forall>pk. iid = Some pk \<and> pk \<noteq> [] \<and> uuid_in pk = None \<longrightarrow>
            fst (resultsPerInstitute uuid_in d ctx iid s) = Inl StorageError)
       \<and> (\<forall>pk k. iid = Some pk \<and> pk \<noteq> [] \<and> uuid_in pk = Some k \<longrightarrow>
            (\<exists>out. fst (resultsPerInstitute uuid_in d ctx iid s) = Inr out
               \<and> mset (map ir_institute out)
                   = mset (map ref_of (filter (\<lambda>i. inst_id i = k) (institutes s)))
               \<and> (\<forall>r \<in> set out. ref_id (ir_institute r) = k)
               \<and> (distinct (map inst_id (institutes s)) \<longrightarrow> length out \<le> 1)))
       \<and> (iid = None \<or> iid = Some [] \<longrightarrow>
            (\<exists>out. fst (resultsPerInstitute uuid_in d ctx iid s) = Inr out
               \<and> mset (map ir_institute out) \<subseteq># mset (map ref_of (institutes s))
               \<and> length out = min 10 (length (institutes s))))"
proof -
  have run: "fst (resultsPerInstitute uuid_in d ctx iid s)
     = (case selected uuid_in d iid s of
          None \<Rightarrow> Inl StorageError
        | Some sel \<Rightarrow> Inr (map (\<lambda>i. rollup (load_institute d s i)) sel))"
    using assms(1) by (rule resultsPerInstitute_ok)
  have refs: "map ir_institute (map (\<lambda>i. rollup (load_institute d s i)) sel) = map ref_of sel" for sel
    using rollup_load_institute [OF assms(2)] by (simp add: comp_def)
  have perm: "mset (institutes_as d xs) = mset xs" for xs
    using assms(2) by (simp add: delivers_def)
  have bad: "fst (resultsPerInstitute uuid_in d ctx iid s) = Inl StorageError"
    if "iid = Some pk \<and> pk \<noteq> [] \<and> uuid_in pk = None" for pk
    unfolding run using that by (simp add: selected_def given_id_def)
  have given: "\<exists>out. fst (resultsPerInstitute uuid_in d ctx iid s) = Inr out
               \<and> mset (map ir_institute out)
                   = mset (map ref_of (filter (\<lambda>i. inst_id i = k) (institutes s)))
               \<and> (\<forall>r \<in> set out. ref_id (ir_institute r) = k)
               \<and> (distinct (map inst_id (institutes s)) \<longrightarrow> length out \<le> 1)"
    if h: "iid = Some pk \<and> pk \<noteq> [] \<and> uuid_in pk = Some k" for pk k
  proof -
    let ?sel = "institutes_as d (filter (\<lambda>i. inst_id i = k) (institutes s))"
    let ?out = "map (\<lambda>i. rollup (load_institute d s i)) ?sel"
    from h have sel: "selected uuid_in d iid s = Some ?sel"
      by (simp add: selected_def given_id_def)
    have same: "mset ?sel = mset (filter (\<lambda>i. inst_id i = k) (institutes s))"
      by (rule perm)
    have a: "mset (map ir_institute ?out)
               = mset (map ref_of (filter (\<lambda>i. inst_id i = k) (institutes s)))"
      unfolding refs using same by (rule delivered_map)
    have "set ?sel = set (filter (\<lambda>i. inst_id i = k) (institutes s))"
      using same by (rule mset_eq_setD)
    then have all_k: "\<forall>i \<in> set ?sel. inst_id i = k" by simp
    have "ref_id (ir_institute (rollup (load_institute d s i))) = inst_id i" for i
      using rollup_load_institute [OF assms(2), of s i] by (simp add: ref_of_def)
    then have own: "ref_id (ir_institute (rollup (load_institute d s i))) = inst_id i" for i .
    have b: "\<forall>r \<in> set ?out. ref_id (ir_institute r) = k"
    proof
      fix r
      assume "r \<in> set ?out"
      then have "r \<in> (\<lambda>i. rollup (load_institute d s i)) ` set ?sel"
        by (simp only: set_map)
      then obtain i where i: "i \<in> set ?sel" and r: "r = rollup (load_institute d s i)"
        by (rule imageE)
      from all_k i have "inst_id i = k" by (rule bspec)
      then show "ref_id (ir_institute r) = k"
        by (simp only: r own)
    qed
    have "length ?out = length (filter (\<lambda>i. inst_id i = k) (institutes s))"
      using same by (simp add: delivered_length)
    then have c: "distinct (map inst_id (institutes s)) \<longrightarrow> length ?out \<le> 1"
      using filter_key_le_1 [of inst_id "institutes s" k] by simp
    from a b c show ?thesis
      by (intro exI [of _ ?out]) (simp add: run sel)
  qed
  have omitted: "\<exists>out. fst (resultsPerInstitute uuid_in d ctx iid s) = Inr out
               \<and> mset (map ir_institute out) \<subseteq># mset (map ref_of (institutes s))
               \<and> length out = min 10 (length (institutes s))"
    if h: "iid = None \<or> iid = Some []"
  proof -
    let ?sel = "take 10 (institutes_as d (institutes s))"
    let ?out = "map (\<lambda>i. rollup (load_institute d s i)) ?sel"
    from h have sel: "selected uuid_in d iid s = Some ?sel"
      by (auto simp: selected_def given_id_def)
    have "mset ?sel \<subseteq># mset (institutes_as d (institutes s))"
      by (rule mset_take_subseteq)
    then have "mset ?sel \<subseteq># mset (institutes s)"
      by (simp add: perm)
    then have "image_mset ref_of (mset ?sel) \<subseteq># image_mset ref_of (mset (institutes s))"
      by (rule image_mset_subseteq_mono)
    then have a: "mset (map ir_institute ?out) \<subseteq># mset (map ref_of (institutes s))"
      unfolding refs by simp
    have "length (institutes_as d (institutes s)) = length (institutes s)"
      using perm by (rule delivered_length)
    then have b: "length ?out = min 10 (length (institutes s))"
      by (simp add: min.commute)
    from a b show ?thesis
      by (intro exI [of _ ?out]) (simp add: run sel)
  qed
  from bad given omitted show ?thesis by blast
qed

text \<open>
  Witness for C2 (amended): asked for institute \<open>b3\<close> among the eleven, a student gets
  the single rollup of \<open>b3\<close>.
\<close>

theorem resultsPerInstitute_selection_witness:
  "rollup_names (fst (resultsPerInstitute sample_uuid_in table_order student_ctx
                        (Some (uid ''10b3'')) eleven_institutes)) = [''b3'']"
proof -
  have auth: "user student_ctx = Some sample_principal"
    by (simp add: student_ctx_def)
  have syn: "Some (uid ''10b3'') = Some (uid ''10b3'') \<and> uid ''10b3'' \<noteq> []
               \<and> sample_uuid_in (uid ''10b3'') = Some (uid ''10b3'')"
    by (simp add: sample_uuid_in_uid hex_digit_def) (simp add: uid_def)
  from resultsPerInstitute_selection [OF auth delivers_table_order,
      of "Some (uid ''10b3'')" sample_uuid_in eleven_institutes, THEN conjunct2, THEN conjunct1,
      rule_format, OF syn]
  obtain out where run: "fst (resultsPerInstitute sample_uuid_in table_order student_ctx
                                (Some (uid ''10b3'')) eleven_institutes) = Inr out"
    and sel: "mset (map ir_institute out)
                = mset (map ref_of (filter (\<lambda>i. inst_id i = uid ''10b3'') (institutes eleven_institutes)))"
    by (elim exE conjE) (rule that)
  have "filter (\<lambda>i. inst_id i = uid ''10b3'') (institutes eleven_institutes) = [named_institute ''b3'']"
    by (simp add: eleven_institutes_def named_institute_def uid_eq)
  with sel have "mset (map ir_institute out) = {#ref_of (named_institute ''b3'')#}"
    by simp
  then have "map ir_institute out = [ref_of (named_institute ''b3'')]"
    by (metis mset_single_iff_right mset.simps(1) mset.simps(2) add_mset_eq_single mset_zero_iff)
  then have "map ref_name (map ir_institute out) = [''b3'']"
    by (simp add: ref_of_def named_institute_def)
  then show ?thesis
    by (simp add: run rollup_names_def entries_def comp_def)
qed

text \<open>
  C4, as stated, fails on the code: the scores are added as doubles and the total is
  divided as a double, so \<open>averageScore\<close> is the arithmetic mean only up to rounding. For
  the scores 0.10 and 0.20 the code returns 0.15000000000000002, not 0.15.
\<close>

theorem rollup_rounding_counterexample:
  "map ir_averageScore (entries
       (fst (resultsPerInstitute sample_uuid_in table_order student_ctx (Some (uid ''1001'')) two_tenths)))
     = [1351079888211149 / 9007199254740992]
   \<and> arithmetic_mean (institute_scores two_tenths (uid ''1001'')) = 3 / 20
   \<and> (1351079888211149 / 9007199254740992 :: rat) \<noteq> 3 / 20"
proof -
  have syn: "sample_uuid_in (uid ''1001'') = Some (uid ''1001'')"
    by (simp add: sample_uuid_in_uid hex_digit_def)
  have nonempty: "uid ''1001'' \<noteq> []"
    by (simp add: uid_def)
  have d: "js_div (js_add (js_add 0 (parseFloat (1 / 10))) (parseFloat (1 / 5))) 2
             = 1351079888211149 / 9007199254740992"
    by code_simp
  have a: "map ir_averageScore (entries
       (fst (resultsPerInstitute sample_uuid_in table_order student_ctx (Some (uid ''1001'')) two_tenths)))
     = [1351079888211149 / 9007199254740992]"
    by (simp add: entries_def resultsPerInstitute_ok [of _ sample_principal] selected_def
          student_ctx_def given_id_def nonempty syn two_tenths_def table_order_def
          sample_institute_def sample_student_def scored_def uid_eq
          rollup_def aggregate_def each_student_def push_result_def load_institute_def
          load_student_def load_result_def Let_def d)
  have b: "arithmetic_mean (institute_scores two_tenths (uid ''1001'')) = 3 / 20"
    by (simp add: arithmetic_mean_def institute_scores_def institute_students_def two_tenths_def
          sample_student_def scored_def uid_eq)
  show ?thesis unfolding a b by simp
qed

text \<open>
  C4 (amended): every rollup produced by \<open>resultsPerInstitute\<close> belongs to a stored
  institute; the scores of its flattened results are, up to order, the scores of all
  results of that institute's students; \<open>averageScore\<close> is their mean computed in double
  arithmetic (each score parsed, the scores added one by one in the order of the
  flattened list, the total divided by their number), which is the arithmetic mean up
  to rounding; it is 0 when there are no results; and \<open>totalStudents\<close> is the number of
  that institute's students.
\<close>

theorem rollup_aggregates:
  assumes "delivers d"
    and "fst (resultsPerInstitute uuid_in d ctx iid s) = Inr out"
    and "r \<in> set out"
  shows "(\<exists>i \<in> set (institutes s). inst_id i = ref_id (ir_institute r))
       \<and> mset (map fr_score (ir_results r)) = mset (institute_scores s (ref_id (ir_institute r)))
       \<and> ir_averageScore r = double_mean (map fr_score (ir_results r))
       \<and> (ir_results r = [] \<longrightarrow> ir_averageScore r = 0)
       \<and> ir_totalStudents r = length (institute_students s (ref_id (ir_institute r)))"
proof -
  from resultsPerInstitute_Inr [OF assms(2)] obtain sel
    where sel: "selected uuid_in d iid s = Some sel"
      and out: "out = map (\<lambda>i. rollup (load_institute d s i)) sel"
    by blast
  from assms(3) out obtain i where i: "i \<in> set sel" and r: "r = rollup (load_institute d s i)"
    by auto
  have stored: "i \<in> set (institutes s)"
    using selected_subset [OF assms(1) sel] i by blast
  have id: "ref_id (ir_institute r) = inst_id i"
    using rollup_load_institute [OF assms(1), of s i] by (simp add: r ref_of_def)
  have zero: "ir_results r = [] \<longrightarrow> ir_averageScore r = 0"
    using rollup_load_institute [OF assms(1), of s i] by (simp add: r double_mean_def)
  from stored id zero show ?thesis
    using rollup_load_institute [OF assms(1), of s i] r by auto
qed

text \<open>
  Witness for C4 (amended): the institute of the three sample students has the results
  90, 80, 100 and 50, so its rollup has average 80 and three students.
\<close>

theorem rollup_aggregates_witness:
  "map ir_averageScore (entries
       (fst (resultsPerInstitute sample_uuid_in table_order student_ctx (Some (uid ''1001'')) three_students)))
     = [80]
   \<and> map ir_totalStudents (entries
       (fst (resultsPerInstitute sample_uuid_in table_order student_ctx (Some (uid ''1001'')) three_students)))
     = [3]"
proof -
  let ?r = "rollup (load_institute table_order three_students sample_institute)"
  have syn: "sample_uuid_in (uid ''1001'') = Some (uid ''1001'')"
    by (simp add: sample_uuid_in_uid hex_digit_def)
  have nonempty: "uid ''1001'' \<noteq> []"
    by (simp add: uid_def)
  have run: "fst (resultsPerInstitute sample_uuid_in table_order student_ctx (Some (uid ''1001'')) three_students)
               = Inr [?r]"
    by (simp add: resultsPerInstitute_ok [of _ sample_principal] selected_def student_ctx_def
          given_id_def nonempty syn three_students_def table_order_def sample_institute_def)
  have mem: "?r \<in> set [?r]" by simp
  have id: "ref_id (ir_institute ?r) = uid ''1001''"
    by (simp add: rollup_def Let_def institute_ref_def load_institute_def sample_institute_def)
  have flat: "map fr_score (ir_results ?r) = [90, 80, 100, 50]"
    by (simp add: rollup_def Let_def aggregate_def each_student_def push_result_def
          load_institute_def load_student_def load_result_def table_order_def three_students_def
          sample_institute_def sample_student_def scored_def uid_eq)
  have mean: "double_mean [90, 80, 100, 50] = 80"
    by code_simp
  have studs: "length (institute_students three_students (uid ''1001'')) = 3"
    by (simp add: institute_students_def three_students_def sample_student_def)
  from rollup_aggregates [OF delivers_table_order run mem]
  have "ir_averageScore ?r = double_mean (map fr_score (ir_results ?r))"
    and "ir_totalStudents ?r = length (institute_students three_students (uid ''1001''))"
    unfolding id by simp_all
  then have "ir_averageScore ?r = 80" and "ir_totalStudents ?r = 3"
    unfolding flat mean studs by simp_all
  then show ?thesis by (simp add: run entries_def)
qed

section \<open>Rankings\<close>






section \<open>Sign-in and writes\<close>

text \<open>
  C7: whatever the stored users, a sign-in whose email matches no user and a sign-in
  whose email matches a user but whose password fails the hash comparison throw the
  same error: message \<open>Invalid credentials\<close>, code \<open>UNAUTHENTICATED\<close>.
\<close>

theorem signIn_failures_indistinguishable:
  assumes "find (\<lambda>u. user_email u = si_email unknown) (users s) = None"
    and "find (\<lambda>u. user_email u = si_email known) (users s) = Some u"
    and "\<not> bcrypt_compare (si_password known) (user_password u)"
  shows "fst (signIn bcrypt_compare jwt_sign unknown s)
           = Inl (GraphQLError ''Invalid credentials'' UNAUTHENTICATED)
       \<and> fst (signIn bcrypt_compare jwt_sign known s)
           = fst (signIn bcrypt_compare jwt_sign unknown s)"
  using assms by (simp add: signIn_def User_findOne_email_def)

text \<open>
  Witness for C7: an unknown email, and a stored email with a wrong password, against
  the store of the three sample students.
\<close>

theorem signIn_failures_indistinguishable_witness:
  "fst (signIn hash_matches sign_stub
          \<lparr>si_email = ''bob@example.org'', si_password = ''secret''\<rparr> three_students)
     = Inl (GraphQLError ''Invalid credentials'' UNAUTHENTICATED)
   \<and> fst (signIn hash_matches sign_stub
          \<lparr>si_email = ''s1@example.org'', si_password = ''wrong''\<rparr> three_students)
     = fst (signIn hash_matches sign_stub
          \<lparr>si_email = ''bob@example.org'', si_password = ''secret''\<rparr> three_students)"
  by (rule signIn_failures_indistinguishable [where u = "sample_user ''1''"])
     (simp_all add: three_students_def sample_user_def hash_matches_def)

text \<open>
  C8: for an authenticated caller, \<open>createCourse\<close> fails with \<open>BAD_USER_INPUT\<close> whenever
  a course with the given code exists, and writes no course. \<open>updateCourse\<close> of an
  existing course with an input code equal to its current code (the other supplied
  fields being storable) succeeds with the input applied, and the statements it issues
  are the lookup by id and, if anything changed, the update: no lookup by code.
\<close>

theorem course_code_uniqueness:
  assumes "user ctx = Some who"
  shows "((\<exists>c \<in> set (courses s). crs_code c = cc_code inp) \<longrightarrow>
            fst (createCourse ctx inp new_id s)
              = Inl (GraphQLError ''Course with this code already exists'' BAD_USER_INPUT)
            \<and> courses (snd (createCourse ctx inp new_id s)) = courses s)
       \<and> (find (\<lambda>c. crs_id c = pk) (courses s) = Some course
            \<and> uc_code upd = Some (crs_code course)
            \<and> (case uc_title upd of None \<Rightarrow> True | Some t \<Rightarrow> length t \<le> 255)
            \<and> (case uc_credits upd of None \<Rightarrow> True | Some n \<Rightarrow> credits_valid n) \<longrightarrow>
            fst (updateCourse ctx pk upd s) = Inr (apply_input course upd)
            \<and> calls (snd (updateCourse ctx pk upd s))
                = calls s @ SelectCourseById pk
                    # (if apply_input course upd = course then [] else [UpdateCourse (crs_id course)]))"
proof -
  have create: "fst (createCourse ctx inp new_id s)
              = Inl (GraphQLError ''Course with this code already exists'' BAD_USER_INPUT)
            \<and> courses (snd (createCourse ctx inp new_id s)) = courses s"
    if "\<exists>c \<in> set (courses s). crs_code c = cc_code inp"
  proof -
    from that obtain y where "find (\<lambda>c. crs_code c = cc_code inp) (courses s) = Some y"
      using find_Some_ex [of "courses s" "\<lambda>c. crs_code c = cc_code inp"] by blast
    then show ?thesis
      using assms by (simp add: createCourse_def requireAuth_def Course_findOne_code_def issue_def)
  qed
  have update: "fst (updateCourse ctx pk upd s) = Inr (apply_input course upd)
            \<and> calls (snd (updateCourse ctx pk upd s))
                = calls s @ SelectCourseById pk
                    # (if apply_input course upd = course then [] else [UpdateCourse (crs_id course)])"
    if h: "find (\<lambda>c. crs_id c = pk) (courses s) = Some course
            \<and> uc_code upd = Some (crs_code course)
            \<and> (case uc_title upd of None \<Rightarrow> True | Some t \<Rightarrow> length t \<le> 255)
            \<and> (case uc_credits upd of None \<Rightarrow> True | Some n \<Rightarrow> credits_valid n)"
  proof -
    from h have nocheck: "code_to_check upd course = None"
      by (simp add: code_to_check_def)
    have code_same: "crs_code (apply_input course upd) = crs_code course"
      using h by (simp add: apply_input_def)
    have title_ok: "crs_title (apply_input course upd) \<noteq> crs_title course
                    \<Longrightarrow> length (crs_title (apply_input course upd)) \<le> 255"
      using h by (auto simp: apply_input_def split: option.splits)
    have credits_ok: "crs_credits (apply_input course upd) \<noteq> crs_credits course
                    \<Longrightarrow> credits_valid (crs_credits (apply_input course upd))"
      using h by (auto simp: apply_input_def split: option.splits)
    have upd: "Course_update course upd (issue (SelectCourseById pk) s)
        = (Inr (apply_input course upd),
           if apply_input course upd = course then issue (SelectCourseById pk) s
           else (issue (UpdateCourse (crs_id course)) (issue (SelectCourseById pk) s))
                 \<lparr>courses := map (\<lambda>d. if crs_id d = crs_id course then apply_input course upd else d)
                               (courses (issue (UpdateCourse (crs_id course)) (issue (SelectCourseById pk) s)))\<rparr>)"
      using code_same title_ok credits_ok
      by (auto simp: Course_update_def Let_def)
    have run: "updateCourse ctx pk upd s = Course_update course upd (issue (SelectCourseById pk) s)"
      using assms h nocheck by (simp add: updateCourse_def requireAuth_def Course_findByPk_def)
    show ?thesis
      unfolding run upd by (simp add: issue_def)
  qed
  from create update show ?thesis by blast
qed

text \<open>
  Witness for C8: creating a second course with code \<open>C2\<close> is refused; renaming course
  \<open>C1\<close> while resending its own code succeeds after a lookup by id and an update.
\<close>

theorem course_code_uniqueness_witness:
  "fst (createCourse student_ctx \<lparr>cc_title = ''Algebra'', cc_code = ''C2'', cc_credits = 3\<rparr>
          (uid ''c009'') enrolled_2024)
     = Inl (GraphQLError ''Course with this code already exists'' BAD_USER_INPUT)
   \<and> fst (updateCourse student_ctx (uid ''c001'')
          \<lparr>uc_title = Some ''Logic'', uc_code = Some ''C1'', uc_credits = None\<rparr> enrolled_2024)
     = Inr \<lparr>crs_id = uid ''c001'', crs_title = ''Logic'', crs_code = ''C1'', crs_credits = 3\<rparr>
   \<and> calls (snd (updateCourse student_ctx (uid ''c001'')
          \<lparr>uc_title = Some ''Logic'', uc_code = Some ''C1'', uc_credits = None\<rparr> enrolled_2024))
     = [SelectCourseById (uid ''c001''), UpdateCourse (uid ''c001'')]"
proof -
  have auth: "user student_ctx = Some sample_principal"
    by (simp add: student_ctx_def)
  show ?thesis
    using course_code_uniqueness [OF auth,
        where s = enrolled_2024
          and inp = "\<lparr>cc_title = ''Algebra'', cc_code = ''C2'', cc_credits = 3\<rparr>"
          and new_id = "uid ''c009''" and pk = "uid ''c001''" and course = "sample_course ''1''"
          and upd = "\<lparr>uc_title = Some ''Logic'', uc_code = Some ''C1'', uc_credits = None\<rparr>"]
    by (simp add: enrolled_2024_def sample_course_def apply_input_def uid_eq)
qed

text \<open>
  C9, as stated, fails on the code: \<open>instituteId\<close> is any string, and when it is not
  UUID syntax the database rejects the lookup on the \<open>uuid\<close> key, so \<open>findByPk\<close> throws
  a database error before the resolver's own check; the error is not \<open>BAD_USER_INPUT\<close>.
\<close>

theorem createStudent_malformed_id_counterexample:
  "fst (createStudent sample_uuid_in has_at_sign student_ctx
          \<lparr>cs_name = ''Dan'', cs_email = ''dan@example.org'', cs_instituteId = ''I9'',
           cs_userId = uid ''a001''\<rparr> (uid ''5009'') three_students)
     = Inl StorageError
   \<and> error_code StorageError \<noteq> Some BAD_USER_INPUT"
  by (simp add: createStudent_def requireAuth_def student_ctx_def Institute_findByPk_def
        sample_uuid_in_short)

text \<open>
  C9 (amended): for an authenticated caller, \<open>createStudent\<close> with an instituteId of
  UUID syntax that matches no institute fails with \<open>BAD_USER_INPUT\<close> (\<open>Institute not
  found\<close>); with an existing institute and a userId of UUID syntax that matches no
  user it fails with \<open>BAD_USER_INPUT\<close> (\<open>User not found\<close>); with an instituteId that
  is not UUID syntax, or an existing institute and a userId that is not UUID syntax, it
  fails with the database's error. On each of these paths the student table is left
  as it was.
\<close>

theorem createStudent_missing_reference:
  assumes "user ctx = Some who"
  shows "(uuid_in (cs_instituteId inp) = None \<longrightarrow>
            fst (createStudent uuid_in isEmail ctx inp new_id s) = Inl StorageError
            \<and> students (snd (createStudent uuid_in isEmail ctx inp new_id s)) = students s)
       \<and> (\<forall>ki. uuid_in (cs_instituteId inp) = Some ki
                \<and> \<not> (\<exists>i \<in> set (institutes s). inst_id i = ki) \<longrightarrow>
            fst (createStudent uuid_in isEmail ctx inp new_id s)
              = Inl (GraphQLError ''Institute not found'' BAD_USER_INPUT)
            \<and> students (snd (createStudent uuid_in isEmail ctx inp new_id s)) = students s)
       \<and> (\<forall>ki. uuid_in (cs_instituteId inp) = Some ki
                \<and> (\<exists>i \<in> set (institutes s). inst_id i = ki)
                \<and> uuid_in (cs_userId inp) = None \<longrightarrow>
            fst (createStudent uuid_in isEmail ctx inp new_id s) = Inl StorageError
            \<and> students (snd (createStudent uuid_in isEmail ctx inp new_id s)) = students s)
       \<and> (\<forall>ki ku. uuid_in (cs_instituteId inp) = Some ki
                \<and> (\<exists>i \<in> set (institutes s). inst_id i = ki)
                \<and> uuid_in (cs_userId inp) = Some ku
                \<and> \<not> (\<exists>u \<in> set (users s). user_id u = ku) \<longrightarrow>
            fst (createStudent uuid_in isEmail ctx inp new_id s)
              = Inl (GraphQLError ''User not found'' BAD_USER_INPUT)
            \<and> students (snd (createStudent uuid_in isEmail ctx inp new_id s)) = students s)"
proof -
  have auth: "requireAuth ctx = Inr ()"
    using assms by (simp add: requireAuth_def)
  have c1: "fst (createStudent uuid_in isEmail ctx inp new_id s) = Inl StorageError
            \<and> students (snd (createStudent uuid_in isEmail ctx inp new_id s)) = students s"
    if "uuid_in (cs_instituteId inp) = None"
    using that by (simp add: createStudent_def auth Institute_findByPk_def issue_def)
  have c2: "fst (createStudent uuid_in isEmail ctx inp new_id s)
              = Inl (GraphQLError ''Institute not found'' BAD_USER_INPUT)
            \<and> students (snd (createStudent uuid_in isEmail ctx inp new_id s)) = students s"
    if "uuid_in (cs_instituteId inp) = Some ki \<and> \<not> (\<exists>i \<in> set (institutes s). inst_id i = ki)"
    for ki
  proof -
    from that have "find (\<lambda>i. inst_id i = ki) (institutes s) = None"
      by (simp add: find_None_conv)
    with that show ?thesis
      by (simp add: createStudent_def auth Institute_findByPk_def issue_def)
  qed
  have c3: "fst (createStudent uuid_in isEmail ctx inp new_id s) = Inl StorageError
            \<and> students (snd (createStudent uuid_in isEmail ctx inp new_id s)) = students s"
    if h: "uuid_in (cs_instituteId inp) = Some ki
           \<and> (\<exists>i \<in> set (institutes s). inst_id i = ki)
           \<and> uuid_in (cs_userId inp) = None" for ki
  proof -
    from h obtain y where "find (\<lambda>i. inst_id i = ki) (institutes s) = Some y"
      using find_Some_ex [of "institutes s" "\<lambda>i. inst_id i = ki"] by blast
    with h show ?thesis
      by (simp add: createStudent_def auth Institute_findByPk_def User_findByPk_def issue_def)
  qed
  have c4: "fst (createStudent uuid_in isEmail ctx inp new_id s)
              = Inl (GraphQLError ''User not found'' BAD_USER_INPUT)
            \<and> students (snd (createStudent uuid_in isEmail ctx inp new_id s)) = students s"
    if h: "uuid_in (cs_instituteId inp) = Some ki
           \<and> (\<exists>i \<in> set (institutes s). inst_id i = ki)
           \<and> uuid_in (cs_userId inp) = Some ku
           \<and> \<not> (\<exists>u \<in> set (users s). user_id u = ku)" for ki ku
  proof -
    from h obtain y where "find (\<lambda>i. inst_id i = ki) (institutes s) = Some y"
      using find_Some_ex [of "institutes s" "\<lambda>i. inst_id i = ki"] by blast
    moreover from h have "find (\<lambda>u. user_id u = ku) (users s) = None"
      by (simp add: find_None_conv)
    ultimately show ?thesis
      using h
      by (simp add: createStudent_def auth Institute_findByPk_def User_findByPk_def issue_def)
  qed
  from c1 c2 c3 c4 show ?thesis by blast
qed

text \<open>
  Witness for C9 (amended): a student for institute \<open>\<dots>1009\<close>, a well-formed id that
  matches no institute, is refused with \<open>BAD_USER_INPUT\<close> and the three stored students
  stay as they are.
\<close>

theorem createStudent_missing_reference_witness:
  "fst (createStudent sample_uuid_in has_at_sign student_ctx
          \<lparr>cs_name = ''Dan'', cs_email = ''dan@example.org'', cs_instituteId = uid ''1009'',
           cs_userId = uid ''a001''\<rparr> (uid ''5009'') three_students)
     = Inl (GraphQLError ''Institute not found'' BAD_USER_INPUT)
   \<and> students (snd (createStudent sample_uuid_in has_at_sign student_ctx
          \<lparr>cs_name = ''Dan'', cs_email = ''dan@example.org'', cs_instituteId = uid ''1009'',
           cs_userId = uid ''a001''\<rparr> (uid ''5009'') three_students))
     = map sample_student [''1'', ''2'', ''3'']"
proof -
  let ?inp = "\<lparr>cs_name = ''Dan'', cs_email = ''dan@example.org'', cs_instituteId = uid ''1009'',
               cs_userId = uid ''a001''\<rparr>"
  have auth: "user student_ctx = Some sample_principal"
    by (simp add: student_ctx_def)
  have missing: "sample_uuid_in (cs_instituteId ?inp) = Some (uid ''1009'')
                 \<and> \<not> (\<exists>i \<in> set (institutes three_students). inst_id i = uid ''1009'')"
    by (simp add: sample_uuid_in_uid hex_digit_def three_students_def sample_institute_def uid_eq)
  from createStudent_missing_reference [OF auth, of sample_uuid_in ?inp has_at_sign "uid ''5009''"
      three_students, THEN conjunct2, THEN conjunct1, rule_format, OF missing]
  show ?thesis
    by (simp add: three_students_def)
qed

section \<open>Authorization\<close>

text \<open>
  C10: for an authenticated caller of any role, the authorization step of every query
  and mutation resolver passes; when that step fails, the code is \<open>UNAUTHENTICATED\<close>,
  never \<open>FORBIDDEN\<close>, and no error a resolver body constructs has that code.
  \<open>requireAdmin\<close> rejects a caller whose role is not \<open>admin\<close> with
  \<open>FORBIDDEN\<close>, so no resolver's step is \<open>requireAdmin\<close>. The resolvers modelled in full
  (sign-in, the course and student writes, the three analytics queries) raise
  \<open>FORBIDDEN\<close> on no path.
\<close>

theorem no_resolver_requires_admin:
  "(user ctx = Some who \<longrightarrow> authorization r ctx = Inr ())
   \<and> (\<forall>e. authorization r ctx = Inl e \<longrightarrow> error_code e = Some UNAUTHENTICATED)
   \<and> (user ctx = Some who \<and> auth_role who \<noteq> ''admin'' \<longrightarrow>
        requireAdmin ctx = Inl (GraphQLError ''Admin access required'' FORBIDDEN)
        \<and> authorization r ctx \<noteq> requireAdmin ctx)
   \<and> FORBIDDEN \<notin> set (List.map_filter error_code (thrown r))
   \<and> \<not> raises_forbidden (fst (signIn bcrypt_compare jwt_sign si s))
   \<and> \<not> raises_forbidden (fst (createCourse ctx cc new_id s))
   \<and> \<not> raises_forbidden (fst (updateCourse ctx pk uc s))
   \<and> \<not> raises_forbidden (fst (createStudent uuid_in isEmail ctx cs new_id s))
   \<and> \<not> raises_forbidden (fst (resultsPerInstitute uuid_in d ctx iid s))
   \<and> \<not> raises_forbidden (fst (topCourses ctx yr lim_in s))
   \<and> \<not> raises_forbidden (fst (topStudents db_avg ctx lim_in s))"
proof -
  have pass: "authorization r ctx = Inr ()" if "user ctx = Some who"
    using that by (cases r) (simp_all add: requireAuth_def)
  have code: "error_code e = Some UNAUTHENTICATED" if "authorization r ctx = Inl e" for e
    using that by (cases r) (auto simp: requireAuth_def split: option.splits)
  have admin: "requireAdmin ctx = Inl (GraphQLError ''Admin access required'' FORBIDDEN)"
    if "user ctx = Some who \<and> auth_role who \<noteq> ''admin''"
    using that by (simp add: requireAdmin_def requireAuth_def)
  have body: "FORBIDDEN \<notin> set (List.map_filter error_code (thrown r))"
    by (cases r) simp_all
  from pass code admin body show ?thesis
    using signIn_not_forbidden createCourse_not_forbidden updateCourse_not_forbidden
      createStudent_not_forbidden resultsPerInstitute_not_forbidden topCourses_not_forbidden
      topStudents_not_forbidden
    by simp
qed

text \<open>
  Witness for C10: a caller with role \<open>student\<close> passes the authorization step of
  \<open>deleteInstitute\<close>, which \<open>requireAdmin\<close> would have refused.
\<close>

theorem no_resolver_requires_admin_witness:
  "authorization Mutation_deleteInstitute student_ctx = Inr ()
   \<and> requireAdmin student_ctx = Inl (GraphQLError ''Admin access required'' FORBIDDEN)"
  using no_resolver_requires_admin [of student_ctx sample_principal Mutation_deleteInstitute]
  by (simp add: student_ctx_def sample_principal_def)

end
